theory Spec2Isabelle
  imports Main
begin

section \<open>Redis-backed session middleware (fastapi-app/app/session.py)\<close>

subsection \<open>Values, exceptions and messages\<close>

text \<open>
  The session attached to a request is whatever \<^verbatim>\<open>json.loads\<close> returned, or what the
  handler left in \<^verbatim>\<open>scope["session"]\<close>: a JSON value. A Python dict is an association
  list here. Numbers are integers (floats are left out).
\<close>

datatype json =
    JNull
  | JBool bool
  | JNum int
  | JStr string
  | JArr "json list"
  | JObj "(string \<times> json) list"

text \<open>Python's truth value, as tested by \<^verbatim>\<open>if session_data:\<close>.\<close>

fun truthy :: "json \<Rightarrow> bool" where
  "truthy JNull = False"
| "truthy (JBool b) = b"
| "truthy (JNum n) = (n \<noteq> 0)"
| "truthy (JStr s) = (s \<noteq> [])"
| "truthy (JArr xs) = (xs \<noteq> [])"
| "truthy (JObj kvs) = (kvs \<noteq> [])"

text \<open>Everything raised inside the middleware is a subclass of \<^verbatim>\<open>Exception\<close>.\<close>

datatype exn = BadSignature | JSONDecodeError | RedisError | HandlerError

text \<open>
  An ASGI message: its \<^verbatim>\<open>"type"\<close>, its \<^verbatim>\<open>"headers"\<close> list, and the remaining keys in
  the record's extension.
\<close>

record message =
  mtype :: string
  headers :: "(string \<times> string) list"

subsection \<open>The store\<close>

text \<open>
  The Redis server is outside the program. It is a table from keys to a value and the
  time-to-live the value was written with; every command sent to it is logged in
  \<open>commands\<close>. \<open>redis_client\<close> is \<^verbatim>\<open>self._redis is not None\<close>, and \<open>uuid_calls\<close> counts
  the calls of \<^verbatim>\<open>uuid.uuid4()\<close>.
\<close>

datatype command = Get string | SetEx string int string | Delete string

record world =
  redis_client :: bool
  kv :: "string \<rightharpoonup> string \<times> int"
  commands :: "command list"
  uuid_calls :: nat

text \<open>
  What the surroundings answer during one request: the \<^verbatim>\<open>json\<close> module, the identifiers
  \<^verbatim>\<open>uuid.uuid4()\<close> returns, and whether each kind of store command raises.
\<close>

record env =
  json_loads :: "string \<Rightarrow> exn + json"
  json_dumps :: "json \<Rightarrow> string"
  uuid4 :: "nat \<Rightarrow> string"
  get_raises :: bool
  setex_raises :: bool
  delete_raises :: bool

definition redis_get :: "env \<Rightarrow> string \<Rightarrow> world \<Rightarrow> (exn + string option) \<times> world" where
  "redis_get e k w =
     (let w' = w\<lparr>commands := commands w @ [Get k]\<rparr>
      in if get_raises e then (Inl RedisError, w')
         else (Inr (map_option fst (kv w k)), w'))"

definition redis_setex :: "env \<Rightarrow> string \<Rightarrow> int \<Rightarrow> string \<Rightarrow> world \<Rightarrow> (exn + unit) \<times> world" where
  "redis_setex e k ttl v w =
     (let w' = w\<lparr>commands := commands w @ [SetEx k ttl v]\<rparr>
      in if setex_raises e then (Inl RedisError, w')
         else (Inr (), w'\<lparr>kv := (kv w)(k \<mapsto> (v, ttl))\<rparr>))"

definition redis_delete :: "env \<Rightarrow> string \<Rightarrow> world \<Rightarrow> (exn + unit) \<times> world" where
  "redis_delete e k w =
     (let w' = w\<lparr>commands := commands w @ [Delete k]\<rparr>
      in if delete_raises e then (Inl RedisError, w')
         else (Inr (), w'\<lparr>kv := (kv w)(k := None)\<rparr>))"

subsection \<open>The middleware object\<close>

definition SESSION_COOKIE :: string where
  "SESSION_COOKIE = ''session''"

definition SESSION_TTL :: int where
  "SESSION_TTL = 14 * 24 * 3600"

text \<open>
  The fields of \<^verbatim>\<open>self\<close>. \<^verbatim>\<open>self.signer\<close> is an object of the itsdangerous library; its
  two methods are fields here. An identifier is a string.
\<close>

record middleware =
  signer_loads :: "string \<Rightarrow> exn + string"
  signer_dumps :: "string \<Rightarrow> string"
  session_cookie :: string
  max_age :: int
  https_only :: bool

text \<open>\<^verbatim>\<open>__init__\<close> with its defaults for the cookie name, the TTL and the HTTPS flag.\<close>

definition init :: "(string \<Rightarrow> exn + string) \<Rightarrow> (string \<Rightarrow> string) \<Rightarrow> middleware" where
  "init loads dumps =
     \<lparr>signer_loads = loads, signer_dumps = dumps,
      session_cookie = SESSION_COOKIE, max_age = SESSION_TTL, https_only = False\<rparr>"

definition get_redis :: "world \<Rightarrow> world" where
  "get_redis w = (if \<not> redis_client w then w\<lparr>redis_client := True\<rparr> else w)"

text \<open>Decimal digits of a Python int, as an f-string prints them.\<close>

definition digit_char :: "nat \<Rightarrow> char" where
  "digit_char n = ''0123456789'' ! n"

fun str_nat :: "nat \<Rightarrow> string" where
  "str_nat n =
     (if n < 10 then [digit_char n]
      else str_nat (n div 10) @ [digit_char (n mod 10)])"

declare str_nat.simps [simp del]

definition str_int :: "int \<Rightarrow> string" where
  "str_int i = (if i < 0 then CHR ''-'' # str_nat (nat (- i)) else str_nat (nat i))"

subsection \<open>Reading the session at the start of a request\<close>

text \<open>
  The body of the \<^verbatim>\<open>try\<close> block of \<^verbatim>\<open>__call__\<close> (lines 56 to 60): the identifier and
  the data it assigns, or the exception that left it, with the world as it was then.
\<close>

definition read_try ::
  "middleware \<Rightarrow> env \<Rightarrow> string \<Rightarrow> world \<Rightarrow> (exn + string \<times> json) \<times> world" where
  "read_try m e cookie_value w =
     (case signer_loads m cookie_value of
        Inl x \<Rightarrow> (Inl x, w)
      | Inr session_id \<Rightarrow>
          (case redis_get e (''session:'' @ session_id) (get_redis w) of
             (Inl x, w') \<Rightarrow> (Inl x, w')
           | (Inr raw, w') \<Rightarrow>
               (case raw of
                  None \<Rightarrow> (Inr (session_id, JObj []), w')
                | Some s \<Rightarrow>
                    if s = [] then (Inr (session_id, JObj []), w')
                    else (case json_loads e s of
                            Inl x \<Rightarrow> (Inl x, w')
                          | Inr d \<Rightarrow> (Inr (session_id, d), w')))))"

text \<open>
  Lines 49 to 62: \<^verbatim>\<open>session_id\<close> and \<^verbatim>\<open>initial_data\<close> after the cookie has been read.
  The handler of the \<^verbatim>\<open>try\<close> block catches every exception and resets the identifier.
\<close>

definition read_session ::
  "middleware \<Rightarrow> env \<Rightarrow> string option \<Rightarrow> world \<Rightarrow> string option \<times> json \<times> world" where
  "read_session m e cookie w =
     (case cookie of
        None \<Rightarrow> (None, JObj [], w)
      | Some cookie_value \<Rightarrow>
          if cookie_value = [] then (None, JObj [], w)
          else (case read_try m e cookie_value w of
                  (Inl x, w') \<Rightarrow> (None, JObj [], w')
                | (Inr (session_id, d), w') \<Rightarrow> (Some session_id, d, w')))"

subsection \<open>Sending the response\<close>

text \<open>
  \<^verbatim>\<open>send_wrapper\<close> (lines 67 to 113). \<open>session_id\<close> is the variable of the enclosing
  call, \<open>session\<close> the slot \<^verbatim>\<open>scope["session"]\<close> (\<open>None\<close> when the handler removed the
  key). The result is the message passed on to \<^verbatim>\<open>send\<close>, and the world afterwards. The
  two \<^verbatim>\<open>try\<close> blocks discard the outcome of the store command.
\<close>

text \<open>\<^verbatim>\<open>scope.get("session", {})\<close>.\<close>

definition scope_get_session :: "json option \<Rightarrow> json" where
  "scope_get_session session = (case session of None \<Rightarrow> JObj [] | Some d \<Rightarrow> d)"

text \<open>
  Lines 91 to 97: the value of the \<^verbatim>\<open>set-cookie\<close> header that issues the cookie for
  \<open>new_id\<close>.
\<close>

definition issue_cookie :: "middleware \<Rightarrow> string \<Rightarrow> string" where
  "issue_cookie m new_id =
     (let signed = signer_dumps m new_id;
          cookie = session_cookie m @ ''='' @ signed @ ''; Path=/; ''
                     @ ''HttpOnly; Max-Age='' @ str_int (max_age m) @ ''; SameSite=lax''
      in if https_only m then cookie @ ''; Secure'' else cookie)"

text \<open>Lines 109 and 110: the value of the header that clears the cookie.\<close>

definition clear_cookie :: "middleware \<Rightarrow> string" where
  "clear_cookie m = session_cookie m @ ''=; Path=/; '' @ ''HttpOnly; Max-Age=0; SameSite=lax''"

definition send_wrapper ::
  "middleware \<Rightarrow> env \<Rightarrow> string option \<Rightarrow> json option \<Rightarrow> 'a message_scheme \<Rightarrow> world
     \<Rightarrow> 'a message_scheme \<times> world" where
  "send_wrapper m e session_id session msg w =
     (if mtype msg = ''http.response.start'' then
        (let session_data = scope_get_session session in
         if truthy session_data then
           (let (new_id, w1) =
                  (case session_id of
                     None \<Rightarrow> (uuid4 e (uuid_calls w), w\<lparr>uuid_calls := Suc (uuid_calls w)\<rparr>)
                   | Some sid \<Rightarrow> (sid, w));
                w2 = (case redis_setex e (''session:'' @ new_id) (max_age m)
                             (json_dumps e session_data) (get_redis w1) of
                        (Inl x, w') \<Rightarrow> w'
                      | (Inr u, w') \<Rightarrow> w')
            in (msg\<lparr>headers := headers msg @ [(''set-cookie'', issue_cookie m new_id)]\<rparr>, w2))
         else
           (case session_id of
              Some sid \<Rightarrow>
                (let w1 = (case redis_delete e (''session:'' @ sid) (get_redis w) of
                             (Inl x, w') \<Rightarrow> w'
                           | (Inr u, w') \<Rightarrow> w')
                 in (msg\<lparr>headers := headers msg @ [(''set-cookie'', clear_cookie m)]\<rparr>, w1))
            | None \<Rightarrow> (msg, w)))
      else (msg, w))"

subsection \<open>One call of the middleware\<close>

text \<open>
  What the wrapped application does during one call, in order: it replaces (or removes)
  \<^verbatim>\<open>scope["session"]\<close>, it sends a message, or it raises.
\<close>

datatype 'a action =
    SetSession "json option"
  | Send "'a message_scheme"
  | Raise exn

text \<open>
  The outcome of a call: the exception that reached the caller (if any), the messages
  that reached \<^verbatim>\<open>send\<close>, and the world afterwards.
\<close>

fun run_wrapped ::
  "middleware \<Rightarrow> env \<Rightarrow> string option \<Rightarrow> json option \<Rightarrow> 'a action list \<Rightarrow> world
     \<Rightarrow> exn option \<times> 'a message_scheme list \<times> world" where
  "run_wrapped m e session_id session [] w = (None, [], w)"
| "run_wrapped m e session_id session (SetSession s # acts) w =
     run_wrapped m e session_id s acts w"
| "run_wrapped m e session_id session (Send msg # acts) w =
     (case send_wrapper m e session_id session msg w of
        (msg', w') \<Rightarrow>
          (case run_wrapped m e session_id session acts w' of
             (x, out, w'') \<Rightarrow> (x, msg' # out, w'')))"
| "run_wrapped m e session_id session (Raise x # acts) w = (Some x, [], w)"

text \<open>A scope the middleware does not handle: the application talks to \<^verbatim>\<open>send\<close> itself.\<close>

fun run_plain :: "'a action list \<Rightarrow> world \<Rightarrow> exn option \<times> 'a message_scheme list \<times> world" where
  "run_plain [] w = (None, [], w)"
| "run_plain (SetSession s # acts) w = run_plain acts w"
| "run_plain (Send msg # acts) w =
     (case run_plain acts w of (x, out, w') \<Rightarrow> (x, msg # out, w'))"
| "run_plain (Raise x # acts) w = (Some x, [], w)"

text \<open>
  \<^verbatim>\<open>__call__\<close> (lines 43 to 115). \<open>app\<close> gives what the application does, from the
  session slot it finds in the scope.
\<close>

definition call ::
  "middleware \<Rightarrow> env \<Rightarrow> string \<Rightarrow> string option \<Rightarrow> (json option \<Rightarrow> 'a action list) \<Rightarrow> world
     \<Rightarrow> exn option \<times> 'a message_scheme list \<times> world" where
  "call m e scope_type cookie app w =
     (if scope_type \<noteq> ''http'' \<and> scope_type \<noteq> ''websocket'' then run_plain (app None) w
      else (case read_session m e cookie w of
              (session_id, initial_data, w') \<Rightarrow>
                run_wrapped m e session_id (Some initial_data) (app (Some initial_data)) w'))"

subsection \<open>The identifier signer\<close>

text \<open>
  Modelled from the spec: the Identifier Signer (\<^verbatim>\<open>itsdangerous.URLSafeSerializer\<close>, a
  library whose code is not part of the sources). The spec gives the contract
  \<^verbatim>\<open>sign(identifier) -> encoded_value\<close> and \<^verbatim>\<open>verify(encoded_value) -> identifier | invalid\<close>:
  the encoded value is the identifier plus a message authentication tag, in a URL-safe
  alphabet, and verification fails closed on malformed, truncated or tag-mismatched
  input. Here the URL-safe alphabet is lower-case hexadecimal, the separator is a dot,
  and the keyed tag function \<open>mac\<close> is a parameter.
\<close>

fun index_of :: "'a \<Rightarrow> 'a list \<Rightarrow> nat option" where
  "index_of x [] = None"
| "index_of x (y # ys) = (if x = y then Some 0 else map_option Suc (index_of x ys))"

definition hex_chars :: string where
  "hex_chars = ''0123456789abcdef''"

definition hex_digit :: "nat \<Rightarrow> char" where
  "hex_digit n = hex_chars ! n"

definition hex_value :: "char \<Rightarrow> nat option" where
  "hex_value c = index_of c hex_chars"

definition urlsafe_encode :: "string \<Rightarrow> string" where
  "urlsafe_encode s =
     concat (map (\<lambda>c. [hex_digit (of_char c div 16), hex_digit (of_char c mod 16)]) s)"

fun urlsafe_decode :: "string \<Rightarrow> string option" where
  "urlsafe_decode [] = Some []"
| "urlsafe_decode [h] = None"
| "urlsafe_decode (h # l # rest) =
     (case hex_value h of
        None \<Rightarrow> None
      | Some a \<Rightarrow>
          (case hex_value l of
             None \<Rightarrow> None
           | Some b \<Rightarrow>
               (case urlsafe_decode rest of
                  None \<Rightarrow> None
                | Some s \<Rightarrow> Some (char_of (16 * a + b) # s))))"

text \<open>The text before the last dot, and the text after it.\<close>

definition rsplit_sep :: "string \<Rightarrow> string \<times> string" where
  "rsplit_sep v =
     (rev (drop 1 (dropWhile (\<lambda>c. c \<noteq> CHR ''.'') (rev v))),
      rev (takeWhile (\<lambda>c. c \<noteq> CHR ''.'') (rev v)))"

text \<open>
  Modelled from the spec: \<^verbatim>\<open>sign(identifier) -> encoded_value\<close>, the identifier plus a
  message authentication tag in a URL-safe alphabet (the library's \<^verbatim>\<open>dumps\<close> is not in
  the sources).
\<close>

definition sign :: "(string \<Rightarrow> string \<Rightarrow> string) \<Rightarrow> string \<Rightarrow> string \<Rightarrow> string" where
  "sign mac secret_key ident =
     (let payload = urlsafe_encode ident
      in payload @ ''.'' @ urlsafe_encode (mac secret_key payload))"

text \<open>
  Modelled from the spec: \<^verbatim>\<open>verify(encoded_value) -> identifier | invalid\<close>, failing
  closed on malformed, truncated or tag-mismatched input (the library's \<^verbatim>\<open>loads\<close> is not
  in the sources).
\<close>

definition verify :: "(string \<Rightarrow> string \<Rightarrow> string) \<Rightarrow> string \<Rightarrow> string \<Rightarrow> exn + string" where
  "verify mac secret_key v =
     (if CHR ''.'' \<notin> set v then Inl BadSignature
      else (case rsplit_sep v of
              (payload, tag) \<Rightarrow>
                if tag \<noteq> urlsafe_encode (mac secret_key payload) then Inl BadSignature
                else (case urlsafe_decode payload of
                        None \<Rightarrow> Inl BadSignature
                      | Some ident \<Rightarrow> Inr ident)))"

subsection \<open>The signature check of the library\<close>

text \<open>
  Modelled from the spec: a signed value is the payload, a separator and a tag. Where
  the spec is silent the definitions follow the library that the source imports
  (\<^verbatim>\<open>itsdangerous\<close>, whose code is not part of the sources): the tag is the URL-safe
  base64 text of the tag bytes with the padding stripped, and \<^verbatim>\<open>unsign\<close> splits at the
  last dot, decodes the tag with Python's \<^verbatim>\<open>base64.urlsafe_b64decode\<close> and compares
  bytes. A byte is a natural number; the keyed tag function \<open>mac\<close> and the coding of the
  payload are parameters.
\<close>

definition b64_alphabet :: string where
  "b64_alphabet = ''ABCDEFGHIJKLMNOPQRSTUVWXYZabcdefghijklmnopqrstuvwxyz0123456789-_''"

definition b64_char :: "nat \<Rightarrow> char" where
  "b64_char n = b64_alphabet ! (n mod 64)"

fun b64_encode :: "nat list \<Rightarrow> string" where
  "b64_encode [] = []"
| "b64_encode [a] = [b64_char (a div 4), b64_char (a mod 4 * 16)]"
| "b64_encode [a, b] =
     [b64_char (a div 4), b64_char (a mod 4 * 16 + b div 16), b64_char (b mod 16 * 4)]"
| "b64_encode (a # b # c # rest) =
     b64_char (a div 4) # b64_char (a mod 4 * 16 + b div 16)
       # b64_char (b mod 16 * 4 + c div 64) # b64_char (c mod 64) # b64_encode rest"

definition b64_value :: "char \<Rightarrow> nat option" where
  "b64_value c =
     (if c = CHR ''+'' then Some 62 else if c = CHR ''/'' then Some 63
      else index_of c b64_alphabet)"

text \<open>
  Modelled from the spec: the decoding step of verification, in the detail of Python's
  non-strict \<^verbatim>\<open>binascii.a2b_base64\<close>. Characters outside the alphabet are skipped, the
  bits left over in the last character are dropped, and padding ends the input.
\<close>

fun a2b_base64 :: "nat \<Rightarrow> nat \<Rightarrow> nat \<Rightarrow> nat list \<Rightarrow> string \<Rightarrow> nat list option" where
  "a2b_base64 quad_pos leftchar pads out [] = (if quad_pos \<noteq> 0 then None else Some out)"
| "a2b_base64 quad_pos leftchar pads out (c # cs) =
     (if c = CHR ''='' then
        (if 2 \<le> quad_pos \<and> 4 \<le> quad_pos + (pads + 1) then Some out
         else a2b_base64 quad_pos leftchar (if 2 \<le> quad_pos then pads + 1 else pads) out cs)
      else
        (case b64_value c of
           None \<Rightarrow> a2b_base64 quad_pos leftchar pads out cs
         | Some v \<Rightarrow>
             if quad_pos = 0 then a2b_base64 1 v 0 out cs
             else if quad_pos = 1 then
               a2b_base64 2 (v mod 16) 0 (out @ [leftchar * 4 + v div 16]) cs
             else if quad_pos = 2 then
               a2b_base64 3 (v mod 4) 0 (out @ [leftchar * 16 + v div 4]) cs
             else a2b_base64 0 0 0 (out @ [leftchar * 64 + v]) cs))"

text \<open>
  Modelled from the spec: \<^verbatim>\<open>base64_decode\<close> of the library pads the text to a multiple of
  four characters before it decodes; \<open>None\<close> is the exception of the decoder.
\<close>

definition base64_decode :: "string \<Rightarrow> nat list option" where
  "base64_decode s =
     a2b_base64 0 0 0 [] (s @ replicate ((4 - length s mod 4) mod 4) (CHR ''=''))"

text \<open>
  Modelled from the spec: \<^verbatim>\<open>verify(encoded_value)\<close> as far as the tag goes, that is
  \<^verbatim>\<open>Signer.unsign\<close>: no separator, a tag that does not decode, or tag bytes that differ
  from those of the payload give \<^verbatim>\<open>BadSignature\<close>.
\<close>

definition signer_unsign :: "(string \<Rightarrow> string \<Rightarrow> nat list) \<Rightarrow> string \<Rightarrow> string \<Rightarrow> exn + string" where
  "signer_unsign mac secret_key signed_value =
     (if CHR ''.'' \<notin> set signed_value then Inl BadSignature
      else (case rsplit_sep signed_value of
              (value, sig) \<Rightarrow>
                if base64_decode sig = Some (mac secret_key value) then Inr value
                else Inl BadSignature))"

text \<open>
  Modelled from the spec: \<^verbatim>\<open>sign(identifier)\<close> and \<^verbatim>\<open>verify(encoded_value)\<close> of the
  serializer, around a coding of the payload that is left open.
\<close>

definition serializer_dumps ::
  "(string \<Rightarrow> string \<Rightarrow> nat list) \<Rightarrow> string \<Rightarrow> (string \<Rightarrow> string) \<Rightarrow> string \<Rightarrow> string" where
  "serializer_dumps mac secret_key dump_payload ident =
     (let payload = dump_payload ident
      in payload @ ''.'' @ b64_encode (mac secret_key payload))"

definition serializer_loads ::
  "(string \<Rightarrow> string \<Rightarrow> nat list) \<Rightarrow> string \<Rightarrow> (string \<Rightarrow> exn + string) \<Rightarrow> string
     \<Rightarrow> exn + string" where
  "serializer_loads mac secret_key load_payload s =
     (case signer_unsign mac secret_key s of
        Inl x \<Rightarrow> Inl x
      | Inr payload \<Rightarrow> load_payload payload)"

subsection \<open>A small configuration for the examples\<close>

text \<open>
  A middleware with the default settings, a toy tag function, a \<^verbatim>\<open>json\<close> module that
  knows one document, and an empty store that answers every command.
\<close>

definition demo_mac :: "string \<Rightarrow> string \<Rightarrow> string" where
  "demo_mac secret_key payload = secret_key @ payload"

definition demo_mw :: middleware where
  "demo_mw = init (verify demo_mac ''k'') (sign demo_mac ''k'')"

definition alice :: json where
  "alice = JObj [(''user'', JStr ''alice'')]"

definition demo_env :: env where
  "demo_env =
     \<lparr>json_loads = (\<lambda>s. if s = ''{user: alice}'' then Inr alice else Inl JSONDecodeError),
      json_dumps = (\<lambda>d. if d = alice then ''{user: alice}'' else ''{}''),
      uuid4 = (\<lambda>n. ''id'' @ str_nat n),
      get_raises = False, setex_raises = False, delete_raises = False\<rparr>"

text \<open>The same surroundings with the store unreachable: every command raises.\<close>

definition demo_down :: env where
  "demo_down = demo_env\<lparr>get_raises := True, setex_raises := True, delete_raises := True\<rparr>"

definition demo_world :: world where
  "demo_world = \<lparr>redis_client = False, kv = Map.empty, commands = [], uuid_calls = 0\<rparr>"

text \<open>The same surroundings with a store whose reads raise.\<close>

definition demo_read_fails :: env where
  "demo_read_fails = demo_env\<lparr>get_raises := True\<rparr>"

text \<open>A store that holds a truncated document for the identifier \<open>abc\<close>.\<close>

definition demo_corrupt :: world where
  "demo_corrupt = demo_world\<lparr>kv := [''session:abc'' \<mapsto> (''{user: al'', 1209600)]\<rparr>"

text \<open>The example middleware behind TLS termination.\<close>

definition demo_https :: middleware where
  "demo_https = demo_mw\<lparr>https_only := True\<rparr>"

definition demo_start :: message where
  "demo_start = \<lparr>mtype = ''http.response.start'', headers = [(''content-type'', ''text/html'')]\<rparr>"

definition demo_accept :: message where
  "demo_accept = \<lparr>mtype = ''websocket.accept'', headers = []\<rparr>"

text \<open>Three handlers: one leaves the session alone, one logs in, one logs out.\<close>

definition demo_idle :: "json option \<Rightarrow> unit action list" where
  "demo_idle session = [Send demo_start]"

definition demo_login :: "json option \<Rightarrow> unit action list" where
  "demo_login session = [SetSession (Some alice), Send demo_start]"

definition demo_logout :: "json option \<Rightarrow> unit action list" where
  "demo_logout session = [SetSession (Some (JObj [])), Send demo_start]"

text \<open>A websocket handler that changes the session and accepts the connection.\<close>

definition demo_socket :: "json option \<Rightarrow> unit action list" where
  "demo_socket session = [SetSession (Some alice), Send demo_accept]"

text \<open>The cookie a client holds for the identifier \<open>abc\<close>.\<close>

definition demo_cookie :: string where
  "demo_cookie = sign demo_mac ''k'' ''abc''"

text \<open>The same surroundings with a store whose writes raise.\<close>

definition demo_write_fails :: env where
  "demo_write_fails = demo_env\<lparr>setex_raises := True\<rparr>"

text \<open>A store that holds the record of \<open>abc\<close>, written with a TTL of 60 seconds.\<close>

definition demo_stored :: world where
  "demo_stored = demo_world\<lparr>kv := [''session:abc'' \<mapsto> (''{user: alice}'', 60)]\<rparr>"

text \<open>
  A middleware whose signer is the library's, with the secret \<open>k\<close>. The tag function is
  given on the one payload of the examples, where it is the HMAC-SHA1 tag that Python's
  \<^verbatim>\<open>hmac\<close> module computes with the key the library derives from \<open>k\<close>. The payload of an
  identifier is the base64 text of its JSON string, for identifiers without quotes or
  backslashes.
\<close>

definition demo_hmac :: "string \<Rightarrow> string \<Rightarrow> nat list" where
  "demo_hmac secret_key value =
     (if secret_key = ''k'' \<and> value = ''ImFiYyI''
      then [137, 200, 17, 96, 60, 65, 85, 199, 145, 219, 149, 212, 66, 25, 136, 0, 95, 235,
            230, 38]
      else [])"

definition demo_dump_payload :: "string \<Rightarrow> string" where
  "demo_dump_payload ident = b64_encode (map of_char (CHR 0x22 # ident @ [CHR 0x22]))"

definition demo_load_payload :: "string \<Rightarrow> exn + string" where
  "demo_load_payload payload =
     (case base64_decode payload of
        None \<Rightarrow> Inl JSONDecodeError
      | Some bs \<Rightarrow>
          if 2 \<le> length bs \<and> hd bs = 34 \<and> last bs = 34
          then Inr (map char_of (butlast (tl bs)))
          else Inl JSONDecodeError)"

definition demo_library :: middleware where
  "demo_library =
     init (serializer_loads demo_hmac ''k'' demo_load_payload)
       (serializer_dumps demo_hmac ''k'' demo_dump_payload)"

text \<open>
  The cookie that the library issues for \<open>abc\<close> under the secret \<open>k\<close>, the same cookie
  with the last character of its tag changed from \<^verbatim>\<open>Y\<close> to \<^verbatim>\<open>Z\<close>, and the same cookie
  with that character cut off.
\<close>

definition real_cookie :: string where
  "real_cookie = ''ImFiYyI.icgRYDxBVceR25XUQhmIAF_r5iY''"

definition altered_cookie :: string where
  "altered_cookie = ''ImFiYyI.icgRYDxBVceR25XUQhmIAF_r5iZ''"

definition truncated_cookie :: string where
  "truncated_cookie = ''ImFiYyI.icgRYDxBVceR25XUQhmIAF_r5i''"

subsection \<open>Notions used to state the properties\<close>

text \<open>The messages an application sends, up to the point where it raises.\<close>

fun sent :: "'a action list \<Rightarrow> 'a message_scheme list" where
  "sent [] = []"
| "sent (SetSession s # acts) = sent acts"
| "sent (Send msg # acts) = msg # sent acts"
| "sent (Raise x # acts) = []"

text \<open>The exception with which an application ends, if it raises.\<close>

fun raised :: "'a action list \<Rightarrow> exn option" where
  "raised [] = None"
| "raised (Raise x # acts) = Some x"
| "raised (a # acts) = raised acts"

fun no_raise :: "'a action list \<Rightarrow> bool" where
  "no_raise [] = True"
| "no_raise (Raise x # acts) = False"
| "no_raise (a # acts) = no_raise acts"

fun no_response_start :: "'a action list \<Rightarrow> bool" where
  "no_response_start [] = True"
| "no_response_start (Send msg # acts) =
     (mtype msg \<noteq> ''http.response.start'' \<and> no_response_start acts)"
| "no_response_start (a # acts) = no_response_start acts"

text \<open>
  A message that reached \<^verbatim>\<open>send\<close> is the message the application sent, with headers
  appended at most.
\<close>

definition extends :: "'a message_scheme \<Rightarrow> 'a message_scheme \<Rightarrow> bool" where
  "extends out msg = (\<exists>extra. out = msg\<lparr>headers := headers msg @ extra\<rparr>)"

text \<open>
  The read of the record for an identifier goes through: the \<^verbatim>\<open>GET\<close> does not raise, and
  the record is absent, empty, or a document that \<^verbatim>\<open>json.loads\<close> accepts.
\<close>

definition record_readable :: "env \<Rightarrow> world \<Rightarrow> string \<Rightarrow> bool" where
  "record_readable e w sid =
     (\<not> get_raises e \<and>
      (case kv w (''session:'' @ sid) of
         None \<Rightarrow> True
       | Some (s, ttl) \<Rightarrow> s = [] \<or> \<not> isl (json_loads e s)))"

text \<open>
  The session that lines 58 to 60 load for an identifier when the read goes through.
\<close>

definition loaded_session :: "env \<Rightarrow> world \<Rightarrow> string \<Rightarrow> json" where
  "loaded_session e w sid =
     (case kv w (''session:'' @ sid) of
        None \<Rightarrow> JObj []
      | Some (s, ttl) \<Rightarrow>
          if s = [] then JObj []
          else (case json_loads e s of Inl x \<Rightarrow> JObj [] | Inr d \<Rightarrow> d))"

text \<open>The attributes of a cookie header value: its parts between the separators \<^verbatim>\<open>"; "\<close>.\<close>

fun cookie_attributes :: "string \<Rightarrow> string list" where
  "cookie_attributes [] = [[]]"
| "cookie_attributes [c] = [[c]]"
| "cookie_attributes (c # d # cs) =
     (if c = CHR '';'' \<and> d = CHR '' '' then [] # cookie_attributes cs
      else (case cookie_attributes (d # cs) of
              [] \<Rightarrow> [[c]]
            | a # as \<Rightarrow> (c # a) # as))"

section \<open>Properties\<close>

subsection \<open>The branches of the send wrapper and of the read phase\<close>

lemma send_wrapper_other:
  "mtype msg \<noteq> ''http.response.start'' \<Longrightarrow> send_wrapper m e sid session msg w = (msg, w)"
  by (simp add: send_wrapper_def)

lemma send_wrapper_issue:
  assumes "mtype msg = ''http.response.start''" and "truthy (scope_get_session session)"
  shows "send_wrapper m e sid session msg w =
    (let new_id = (case sid of None \<Rightarrow> uuid4 e (uuid_calls w) | Some i \<Rightarrow> i);
         key = ''session:'' @ new_id;
         val = json_dumps e (scope_get_session session)
     in (msg\<lparr>headers := headers msg @ [(''set-cookie'', issue_cookie m new_id)]\<rparr>,
         w\<lparr>redis_client := True,
           commands := commands w @ [SetEx key (max_age m) val],
           kv := (if setex_raises e then kv w else (kv w)(key \<mapsto> (val, max_age m))),
           uuid_calls := (case sid of None \<Rightarrow> Suc (uuid_calls w) | Some i \<Rightarrow> uuid_calls w)\<rparr>))"
  using assms
  by (cases sid) (simp_all add: send_wrapper_def redis_setex_def get_redis_def Let_def)

lemma send_wrapper_clear:
  assumes "mtype msg = ''http.response.start''" and "\<not> truthy (scope_get_session session)"
  shows "send_wrapper m e (Some sid) session msg w =
    (msg\<lparr>headers := headers msg @ [(''set-cookie'', clear_cookie m)]\<rparr>,
     w\<lparr>redis_client := True,
       commands := commands w @ [Delete (''session:'' @ sid)],
       kv := (if delete_raises e then kv w else (kv w)(''session:'' @ sid := None))\<rparr>)"
  using assms
  by (simp add: send_wrapper_def redis_delete_def get_redis_def Let_def)

lemma send_wrapper_none:
  assumes "\<not> truthy (scope_get_session session)"
  shows "send_wrapper m e None session msg w = (msg, w)"
  using assms by (simp add: send_wrapper_def)

lemma read_session_anonymous:
  assumes "cookie = None \<or> (\<exists>cv x. cookie = Some cv \<and> signer_loads m cv = Inl x)"
  shows "read_session m e cookie w = (None, JObj [], w)"
  using assms by (auto simp: read_session_def read_try_def)

lemma issue_cookie_prefix:
  "\<exists>attrs. issue_cookie m new_id = session_cookie m @ ''='' @ signer_dumps m new_id @ attrs"
  by (simp add: issue_cookie_def Let_def)

lemma run_plain_world: "snd (snd (run_plain acts w)) = w"
  by (induction acts w rule: run_plain.induct) (auto split: prod.splits)

lemma run_plain_sent: "fst (snd (run_plain acts w)) = sent acts"
  by (induction acts w rule: run_plain.induct) (auto split: prod.splits)

lemma run_wrapped_plain:
  "no_response_start acts \<Longrightarrow> run_wrapped m e sid session acts w = run_plain acts w"
  by (induction acts arbitrary: session w rule: no_response_start.induct)
     (simp_all add: send_wrapper_other)

lemma read_session_kv: "kv (snd (snd (read_session m e cookie w))) = kv w"
  by (simp add: read_session_def read_try_def redis_get_def get_redis_def Let_def
           split: option.splits sum.splits prod.splits)

subsection \<open>Facts about the example configuration\<close>

lemma str_nat_digit: "n < 10 \<Longrightarrow> str_nat n = [digit_char n]"
  by (simp add: str_nat.simps)
lemma str_nat_step: "10 \<le> n \<Longrightarrow> str_nat n = str_nat (n div 10) @ [digit_char (n mod 10)]"
  by (subst str_nat.simps) simp
lemma str_ttl: "str_int 1209600 = ''1209600''"
  by (simp add: str_int_def str_nat_digit str_nat_step digit_char_def)
lemma str_nat0: "str_nat 0 = ''0''"
  by (simp add: str_nat_digit digit_char_def)
lemma enc_id0: "urlsafe_encode ''id0'' = ''696430''" by code_simp
lemma enc_kid0: "urlsafe_encode ''k696430'' = ''6b363936343330''" by code_simp
lemma enc_abc: "urlsafe_encode ''abc'' = ''616263''" by code_simp
lemma enc_kabc: "urlsafe_encode ''k616263'' = ''6b363136323633''" by code_simp
lemma dec_abc: "urlsafe_decode ''616263'' = Some ''abc''" by code_simp
lemma sign_id0: "sign demo_mac ''k'' ''id0'' = ''696430.6b363936343330''"
  by (simp add: sign_def demo_mac_def enc_id0 enc_kid0)
lemma sign_abc: "sign demo_mac ''k'' ''abc'' = ''616263.6b363136323633''"
  by (simp add: sign_def demo_mac_def enc_abc enc_kabc)
lemma rsplit_abc: "rsplit_sep ''616263.6b363136323633'' = (''616263'', ''6b363136323633'')"
  by (simp add: rsplit_sep_def)
lemma verify_abc: "verify demo_mac ''k'' ''616263.6b363136323633'' = Inr ''abc''"
  by (simp add: verify_def rsplit_abc demo_mac_def enc_kabc dec_abc del: urlsafe_decode.simps)
lemma verify_garbage: "verify demo_mac ''k'' ''garbage'' = Inl BadSignature"
  by (simp add: verify_def)
lemma demo_issue_id0:
  "issue_cookie demo_mw ''id0'' =
     ''session=696430.6b363936343330; Path=/; HttpOnly; Max-Age=1209600; SameSite=lax''"
  by (simp add: issue_cookie_def demo_mw_def init_def SESSION_COOKIE_def SESSION_TTL_def sign_id0 str_ttl)

lemma demo_cookie_eq: "demo_cookie = ''616263.6b363136323633''"
  by (simp add: demo_cookie_def sign_abc)

lemma demo_cookie_valid: "signer_loads demo_mw demo_cookie = Inr ''abc''"
  by (simp add: demo_cookie_eq demo_mw_def init_def verify_abc)

lemma demo_cookie_nonempty: "demo_cookie \<noteq> []"
  by (simp add: demo_cookie_eq)

lemma demo_garbage_invalid: "signer_loads demo_mw ''garbage'' = Inl BadSignature"
  by (simp add: demo_mw_def init_def verify_garbage)

lemma truthy_alice: "truthy (scope_get_session (Some alice))"
  by (simp add: scope_get_session_def alice_def)

lemma falsy_empty: "\<not> truthy (scope_get_session (Some (JObj [])))"
  by (simp add: scope_get_session_def)

lemma demo_start_type: "mtype demo_start = ''http.response.start''"
  by (simp add: demo_start_def)

lemma demo_uuid: "uuid4 demo_env 0 = ''id0''"
  by (simp add: demo_env_def str_nat0)

lemma demo_max_age: "max_age demo_mw = 1209600"
  by (simp add: demo_mw_def init_def SESSION_TTL_def)

lemma demo_dumps_alice: "json_dumps demo_env alice = ''{user: alice}''"
  by (simp add: demo_env_def)

subsection \<open>Requests without a cookie and with an empty session\<close>

text \<open>
  C9. A request that starts with no session cookie and whose session is still empty at
  \<^verbatim>\<open>http.response.start\<close>: the read phase leaves the world as it was, the send wrapper
  passes the message on as it is, and the whole call sends no store command and adds no
  header.
\<close>

theorem no_cookie_empty_session_untouched:
  assumes "\<not> truthy (scope_get_session session)"
  shows "read_session m e None w = (None, JObj [], w) \<and>
         send_wrapper m e None session msg w' = (msg, w') \<and>
         call m e ''http'' None (\<lambda>s. [SetSession session, Send msg]) w = (None, [msg], w)"
  using assms
  by (simp add: call_def read_session_def send_wrapper_none)

theorem no_cookie_empty_session_untouched_witness:
  "\<not> truthy (scope_get_session (Some (JObj []))) \<and>
   read_session demo_mw demo_env None demo_world = (None, JObj [], demo_world) \<and>
   send_wrapper demo_mw demo_env None (Some (JObj [])) demo_start demo_world =
     (demo_start, demo_world) \<and>
   call demo_mw demo_env ''http'' None demo_logout demo_world = (None, [demo_start], demo_world)"
proof -
  have l: "demo_logout = (\<lambda>s. [SetSession (Some (JObj [])), Send demo_start])"
    by (rule ext) (simp add: demo_logout_def)
  show ?thesis
    using falsy_empty
      no_cookie_empty_session_untouched [OF falsy_empty, of demo_mw demo_env demo_world
        demo_start demo_world]
    by (simp add: l)
qed

subsection \<open>What reaches the caller\<close>

lemma send_wrapper_extends:
  "\<exists>extra. fst (send_wrapper m e sid session msg w) = msg\<lparr>headers := headers msg @ extra\<rparr>"
proof (cases "mtype msg = ''http.response.start''")
  case False
  then have "fst (send_wrapper m e sid session msg w) = msg\<lparr>headers := headers msg @ []\<rparr>"
    by (simp add: send_wrapper_other)
  then show ?thesis by blast
next
  case start: True
  show ?thesis
  proof (cases "truthy (scope_get_session session)")
    case True
    show ?thesis
      using send_wrapper_issue [OF start True, of m e sid w] by (auto simp: Let_def)
  next
    case False
    show ?thesis
    proof (cases sid)
      case None
      have "fst (send_wrapper m e None session msg w) = msg\<lparr>headers := headers msg @ []\<rparr>"
        using False by (simp add: send_wrapper_none)
      then show ?thesis using None by blast
    next
      case (Some i)
      show ?thesis
        using send_wrapper_clear [OF start False, of m e i w] Some by auto
    qed
  qed
qed

lemma run_wrapped_no_raise:
  "no_raise acts \<Longrightarrow>
     fst (run_wrapped m e sid session acts w) = None \<and>
     list_all2 extends (fst (snd (run_wrapped m e sid session acts w))) (sent acts)"
proof (induction acts arbitrary: session w)
  case Nil
  then show ?case by simp
next
  case (Cons a acts)
  show ?case
  proof (cases a)
    case (SetSession s)
    then show ?thesis using Cons by simp
  next
    case (Send msg)
    obtain msg' w' where s: "send_wrapper m e sid session msg w = (msg', w')"
      by (cases "send_wrapper m e sid session msg w") auto
    have x: "extends msg' msg"
      using send_wrapper_extends [of m e sid session msg w] s by (simp add: extends_def)
    have n: "no_raise acts" using Cons.prems Send by simp
    show ?thesis
      using Cons.IH [OF n, of session w'] x Send s by (simp add: case_prod_beta)
  next
    case (Raise x)
    then show ?thesis using Cons.prems by simp
  qed
qed

lemma run_plain_no_raise:
  "no_raise acts \<Longrightarrow>
     fst (run_plain acts w) = None \<and> list_all2 extends (fst (snd (run_plain acts w))) (sent acts)"
proof (induction acts)
  case Nil
  then show ?case by simp
next
  case (Cons a acts)
  have e: "\<And>msg::'a message_scheme. extends msg msg"
  proof -
    fix msg :: "'a message_scheme"
    have "msg = msg\<lparr>headers := headers msg @ []\<rparr>" by simp
    then show "extends msg msg" unfolding extends_def by blast
  qed
  show ?case
    using Cons e by (cases a) (simp_all add: case_prod_beta)
qed

lemma read_session_get_raises:
  assumes "cv \<noteq> []" and "signer_loads m cv = Inr sid" and "get_raises e"
  shows "read_session m e (Some cv) w =
           (None, JObj [], w\<lparr>redis_client := True, commands := commands w @ [Get (''session:'' @ sid)]\<rparr>)"
  using assms
  by (simp add: read_session_def read_try_def redis_get_def get_redis_def Let_def)

subsection \<open>Messages other than the start of an HTTP response\<close>

text \<open>More facts about the example configuration.\<close>

lemma demo_read_ok:
  "read_session demo_mw demo_env (Some demo_cookie) demo_world =
     (Some ''abc'', JObj [],
      demo_world\<lparr>redis_client := True, commands := [Get ''session:abc'']\<rparr>)"
  using demo_cookie_valid demo_cookie_nonempty
  by (simp add: read_session_def read_try_def redis_get_def get_redis_def Let_def
        demo_env_def demo_world_def)

lemma demo_read_down:
  "read_session demo_mw demo_down (Some demo_cookie) demo_world =
     (None, JObj [],
      demo_world\<lparr>redis_client := True, commands := [Get ''session:abc'']\<rparr>)"
  using read_session_get_raises [OF demo_cookie_nonempty demo_cookie_valid, of demo_down demo_world]
  by (simp add: demo_down_def demo_world_def)

lemma demo_accept_type: "mtype demo_accept \<noteq> ''http.response.start''"
  by (simp add: demo_accept_def)

lemma demo_socket_quiet: "no_response_start (demo_socket s)"
  by (simp add: demo_socket_def demo_accept_def)

lemma demo_call_socket:
  "call demo_mw demo_env ''websocket'' (Some demo_cookie) demo_socket demo_world =
     (None, [demo_accept],
      demo_world\<lparr>redis_client := True, commands := [Get ''session:abc'']\<rparr>)"
  by (simp add: call_def demo_read_ok demo_socket_def send_wrapper_other demo_accept_type)

text \<open>
  C10. A message whose type is not \<^verbatim>\<open>http.response.start\<close> passes through the send
  wrapper unchanged and leaves the world unchanged: no store command, no header. Hence a
  websocket call whose application sends no such message forwards exactly the messages
  of the application, leaves the store's contents as they were, and sends no command
  beyond the one \<^verbatim>\<open>GET\<close> that the read phase may have sent: whatever the application
  did to the session is neither stored nor turned into a cookie.
\<close>

theorem other_messages_pass_through:
  assumes "mtype msg \<noteq> ''http.response.start''"
    and "no_response_start (app (Some (fst (snd (read_session m e cookie w)))))"
  shows "send_wrapper m e sid session msg w' = (msg, w') \<and>
         fst (snd (call m e ''websocket'' cookie app w)) =
           sent (app (Some (fst (snd (read_session m e cookie w))))) \<and>
         kv (snd (snd (call m e ''websocket'' cookie app w))) = kv w \<and>
         (commands (snd (snd (call m e ''websocket'' cookie app w))) = commands w \<or>
          (\<exists>k. commands (snd (snd (call m e ''websocket'' cookie app w))) = commands w @ [Get k]))"
proof -
  obtain sid0 d w1 where r: "read_session m e cookie w = (sid0, d, w1)"
    by (cases "read_session m e cookie w") auto
  have c: "call m e ''websocket'' cookie app w = run_plain (app (Some d)) w1"
    using assms(2) by (simp add: call_def r run_wrapped_plain)
  have k: "kv w1 = kv w"
    using read_session_kv [of m e cookie w] by (simp add: r)
  have g: "commands w1 = commands w \<or> (\<exists>k. commands w1 = commands w @ [Get k])"
    using r
    by (auto simp: read_session_def read_try_def redis_get_def get_redis_def Let_def
          split: option.splits sum.splits prod.splits if_splits)
  show ?thesis
    using k g by (simp add: c r run_plain_world run_plain_sent send_wrapper_other [OF assms(1)])
qed

theorem other_messages_pass_through_witness:
  "mtype demo_accept \<noteq> ''http.response.start'' \<and>
   no_response_start (demo_socket (Some (JObj []))) \<and>
   send_wrapper demo_mw demo_env (Some ''abc'') (Some alice) demo_accept demo_world =
     (demo_accept, demo_world) \<and>
   fst (snd (call demo_mw demo_env ''websocket'' (Some demo_cookie) demo_socket demo_world)) =
     [demo_accept] \<and>
   kv (snd (snd (call demo_mw demo_env ''websocket'' (Some demo_cookie) demo_socket demo_world))) =
     kv demo_world \<and>
   commands (snd (snd (call demo_mw demo_env ''websocket'' (Some demo_cookie) demo_socket
     demo_world))) = [Get ''session:abc'']"
  using other_messages_pass_through [OF demo_accept_type demo_socket_quiet,
          where m = demo_mw and e = demo_env and cookie = "Some demo_cookie" and w = demo_world
            and sid = "Some ''abc''" and session = "Some alice" and w' = demo_world]
        demo_accept_type demo_socket_quiet
  by (simp add: demo_call_socket demo_socket_def)

subsection \<open>Store failures\<close>

lemma demo_login_no_raise: "no_raise (demo_login s)"
  by (simp add: demo_login_def)

lemma demo_call_down:
  "call demo_mw demo_down ''http'' (Some demo_cookie) demo_login demo_world =
     (None,
      [demo_start\<lparr>headers := [(''content-type'', ''text/html''),
         (''set-cookie'',
          ''session=696430.6b363936343330; Path=/; HttpOnly; Max-Age=1209600; SameSite=lax'')]\<rparr>],
      demo_world\<lparr>redis_client := True,
        commands := [Get ''session:abc'', SetEx ''session:id0'' 1209600 ''{user: alice}''],
        uuid_calls := 1\<rparr>)"
proof -
  have u: "uuid4 demo_down 0 = ''id0''" "json_dumps demo_down alice = ''{user: alice}''"
          "setex_raises demo_down"
    using demo_uuid demo_dumps_alice by (simp_all add: demo_down_def)
  have s: "scope_get_session (Some alice) = alice"
    by (simp add: scope_get_session_def)
  have w: "send_wrapper demo_mw demo_down None (Some alice) demo_start
             (demo_world\<lparr>redis_client := True, commands := [Get ''session:abc'']\<rparr>) =
     (demo_start\<lparr>headers := [(''content-type'', ''text/html''),
         (''set-cookie'',
          ''session=696430.6b363936343330; Path=/; HttpOnly; Max-Age=1209600; SameSite=lax'')]\<rparr>,
      demo_world\<lparr>redis_client := True,
        commands := [Get ''session:abc'', SetEx ''session:id0'' 1209600 ''{user: alice}''],
        uuid_calls := 1\<rparr>)"
    using send_wrapper_issue [OF demo_start_type truthy_alice, of demo_mw demo_down None
            "demo_world\<lparr>redis_client := True, commands := [Get ''session:abc'']\<rparr>"]
    by (simp add: Let_def u s demo_max_age demo_issue_id0 demo_world_def demo_start_def)
  show ?thesis
    by (simp add: call_def demo_read_down demo_login_def w)
qed

text \<open>
  C5. Whatever the store does (each of \<^verbatim>\<open>GET\<close>, \<^verbatim>\<open>SETEX\<close> and \<^verbatim>\<open>DELETE\<close> may raise or
  not), a call whose application does not raise ends without an exception, and every
  message the application sent reaches \<^verbatim>\<open>send\<close>, with headers appended at most. In
  particular, with a cookie the signer accepts and a store whose read raises, the read
  phase yields no identifier and the empty session, and the call ends without an
  exception.
\<close>

theorem store_failures_never_propagate:
  assumes "\<And>s. no_raise (app s)"
  shows "fst (call m e scope_type cookie app w) = None \<and>
         list_all2 extends (fst (snd (call m e scope_type cookie app w)))
           (sent (app (if scope_type \<noteq> ''http'' \<and> scope_type \<noteq> ''websocket'' then None
                       else Some (fst (snd (read_session m e cookie w)))))) \<and>
         (cv \<noteq> [] \<and> signer_loads m cv = Inr sid \<and> get_raises e \<longrightarrow>
            fst (read_session m e (Some cv) w) = None \<and>
            fst (snd (read_session m e (Some cv) w)) = JObj [] \<and>
            fst (call m e ''http'' (Some cv) app w) = None)"
proof -
  obtain sid0 d w1 where r: "read_session m e cookie w = (sid0, d, w1)"
    by (cases "read_session m e cookie w") auto
  have a: "fst (call m e scope_type cookie app w) = None \<and>
         list_all2 extends (fst (snd (call m e scope_type cookie app w)))
           (sent (app (if scope_type \<noteq> ''http'' \<and> scope_type \<noteq> ''websocket'' then None
                       else Some (fst (snd (read_session m e cookie w))))))"
    using run_plain_no_raise [OF assms, of None w]
          run_wrapped_no_raise [OF assms, of m e sid0 "Some d" "Some d" w1]
    by (simp add: call_def r)
  obtain sid1 d1 w2 where r1: "read_session m e (Some cv) w = (sid1, d1, w2)"
    by (cases "read_session m e (Some cv) w") auto
  have b: "fst (call m e ''http'' (Some cv) app w) = None"
    using run_wrapped_no_raise [OF assms, of m e sid1 "Some d1" "Some d1" w2]
    by (simp add: call_def r1)
  show ?thesis
    using a b by (simp add: read_session_get_raises)
qed

theorem store_failures_never_propagate_witness:
  "(\<forall>s. no_raise (demo_login s)) \<and>
   demo_cookie \<noteq> [] \<and> signer_loads demo_mw demo_cookie = Inr ''abc'' \<and>
   get_raises demo_down \<and> setex_raises demo_down \<and> delete_raises demo_down \<and>
   fst (call demo_mw demo_down ''http'' (Some demo_cookie) demo_login demo_world) = None \<and>
   fst (snd (call demo_mw demo_down ''http'' (Some demo_cookie) demo_login demo_world)) =
     [demo_start\<lparr>headers := [(''content-type'', ''text/html''),
        (''set-cookie'',
         ''session=696430.6b363936343330; Path=/; HttpOnly; Max-Age=1209600; SameSite=lax'')]\<rparr>] \<and>
   fst (read_session demo_mw demo_down (Some demo_cookie) demo_world) = None \<and>
   fst (snd (read_session demo_mw demo_down (Some demo_cookie) demo_world)) = JObj []"
proof -
  have d: "get_raises demo_down" "setex_raises demo_down" "delete_raises demo_down"
    by (simp_all add: demo_down_def)
  show ?thesis
    using store_failures_never_propagate [OF demo_login_no_raise,
            where m = demo_mw and e = demo_down and scope_type = "''http''"
              and cookie = "Some demo_cookie" and w = demo_world and cv = demo_cookie
              and sid = "''abc''"]
          demo_login_no_raise demo_cookie_nonempty demo_cookie_valid d
    by (simp add: demo_call_down)
qed

subsection \<open>The identifier signer\<close>

lemma index_of_nth:
  "distinct xs \<Longrightarrow> n < length xs \<Longrightarrow> index_of (xs ! n) xs = Some n"
proof (induction xs arbitrary: n)
  case Nil
  then show ?case by simp
next
  case (Cons y ys)
  show ?case
  proof (cases n)
    case 0
    then show ?thesis by simp
  next
    case (Suc k)
    then have "k < length ys" using Cons.prems by simp
    moreover have "ys ! k \<noteq> y" using Cons.prems Suc by auto
    ultimately show ?thesis using Cons Suc by simp
  qed
qed

lemma index_of_Some:
  "index_of x xs = Some n \<Longrightarrow> n < length xs \<and> xs ! n = x"
  by (induction xs arbitrary: n) (auto split: if_splits)

lemma hex_chars_distinct: "distinct hex_chars"
  by (simp add: hex_chars_def)

lemma hex_chars_length: "length hex_chars = 16"
  by (simp add: hex_chars_def)

lemma hex_value_digit: "n < 16 \<Longrightarrow> hex_value (hex_digit n) = Some n"
  by (simp add: hex_value_def hex_digit_def index_of_nth hex_chars_distinct hex_chars_length)

lemma hex_digit_value: "hex_value c = Some a \<Longrightarrow> a < 16 \<and> hex_digit a = c"
  using index_of_Some [of c hex_chars a]
  by (simp add: hex_value_def hex_digit_def hex_chars_length)

lemma hex_digit_no_dot: "n < 16 \<Longrightarrow> CHR ''.'' \<noteq> hex_digit n"
proof -
  assume "n < 16"
  then have "hex_digit n \<in> set hex_chars"
    by (simp add: hex_digit_def hex_chars_length)
  moreover have "CHR ''.'' \<notin> set hex_chars"
    by (simp add: hex_chars_def)
  ultimately show ?thesis by metis
qed

lemma char_high_low: "(of_char c :: nat) div 16 < 16 \<and> (of_char c :: nat) mod 16 < 16"
proof -
  have "(of_char c :: nat) < 256" by (rule nat_of_char_less_256)
  then show ?thesis by (simp add: less_mult_imp_div_less)
qed

lemma encode_Cons:
  "urlsafe_encode (c # s) =
     hex_digit (of_char c div 16) # hex_digit (of_char c mod 16) # urlsafe_encode s"
  by (simp add: urlsafe_encode_def)

lemma encode_Nil: "urlsafe_encode [] = []"
  by (simp add: urlsafe_encode_def)

lemma encode_no_dot: "CHR ''.'' \<notin> set (urlsafe_encode s)"
proof (induction s)
  case Nil
  then show ?case by (simp add: encode_Nil)
next
  case (Cons c s)
  have "CHR ''.'' \<noteq> hex_digit (of_char c div 16)" "CHR ''.'' \<noteq> hex_digit (of_char c mod 16)"
    using char_high_low [of c] by (simp_all add: hex_digit_no_dot)
  then show ?case
    using Cons by (simp add: encode_Cons)
qed

lemma decode_encode: "urlsafe_decode (urlsafe_encode s) = Some s"
proof (induction s)
  case Nil
  then show ?case by (simp add: encode_Nil)
next
  case (Cons c s)
  have "16 * ((of_char c :: nat) div 16) + of_char c mod 16 = of_char c"
    by simp
  then have "char_of (16 * ((of_char c :: nat) div 16) + of_char c mod 16) = c"
    by (simp only: char_of_char)
  then show ?case
    using Cons char_high_low [of c]
    by (simp add: encode_Cons hex_value_digit)
qed

lemma encode_decode: "urlsafe_decode p = Some s \<Longrightarrow> urlsafe_encode s = p"
proof (induction p arbitrary: s rule: urlsafe_decode.induct)
  case 1
  then show ?case by (simp add: encode_Nil)
next
  case (2 h)
  then show ?case by simp
next
  case (3 h l rest)
  from "3.prems" obtain a b r where
    a: "hex_value h = Some a" and b: "hex_value l = Some b"
    and r: "urlsafe_decode rest = Some r" and s: "s = char_of (16 * a + b) # r"
    by (auto split: option.splits)
  have ab: "a < 16" "b < 16" "hex_digit a = h" "hex_digit b = l"
    using hex_digit_value [OF a] hex_digit_value [OF b] by simp_all
  have n: "(of_char (char_of (16 * a + b) :: char) :: nat) = 16 * a + b"
    using ab by (simp add: of_char_of)
  have "urlsafe_encode r = rest"
    using "3.IH" [OF a b r] .
  then show ?case
    using ab n by (simp add: s encode_Cons)
qed

lemma rsplit_append:
  "CHR ''.'' \<notin> set t \<Longrightarrow> rsplit_sep (p @ ''.'' @ t) = (p, t)"
proof -
  assume t: "CHR ''.'' \<notin> set t"
  have r: "rev (p @ ''.'' @ t) = rev t @ CHR ''.'' # rev p" by simp
  have tw: "takeWhile (\<lambda>c. c \<noteq> CHR ''.'') (rev t @ CHR ''.'' # rev p) = rev t"
    using t by (subst takeWhile_tail) auto
  have dw: "dropWhile (\<lambda>c. c \<noteq> CHR ''.'') (rev t @ CHR ''.'' # rev p) = CHR ''.'' # rev p"
    using t by (subst dropWhile_append3) auto
  show ?thesis
    unfolding rsplit_sep_def r tw dw by simp
qed

lemma rsplit_join:
  assumes "CHR ''.'' \<in> set v"
  shows "v = fst (rsplit_sep v) @ ''.'' @ snd (rsplit_sep v)"
proof -
  let ?P = "\<lambda>c. c \<noteq> CHR ''.''"
  let ?d = "dropWhile ?P (rev v)"
  have ne: "?d \<noteq> []"
    using assms by auto
  then have "\<not> ?P (hd ?d)" by (rule hd_dropWhile)
  then have "hd ?d = CHR ''.''" by simp
  then have d: "?d = CHR ''.'' # drop 1 ?d"
    using ne by (cases ?d) simp_all
  have "rev v = takeWhile ?P (rev v) @ ?d" by simp
  then have "rev v = takeWhile ?P (rev v) @ CHR ''.'' # drop 1 ?d"
    using d by simp
  then have "rev (rev v) = rev (takeWhile ?P (rev v) @ CHR ''.'' # drop 1 ?d)"
    by (rule arg_cong)
  then show ?thesis
    by (simp add: rsplit_sep_def)
qed

lemma verify_sign_roundtrip: "verify mac key (sign mac key ident) = Inr ident"
proof -
  let ?p = "urlsafe_encode ident"
  let ?t = "urlsafe_encode (mac key ?p)"
  have s: "sign mac key ident = ?p @ ''.'' @ ?t"
    by (simp add: sign_def Let_def)
  have "rsplit_sep (?p @ ''.'' @ ?t) = (?p, ?t)"
    by (rule rsplit_append) (rule encode_no_dot)
  then show ?thesis
    unfolding s verify_def by (simp add: decode_encode)
qed

lemma verify_Inr_is_sign:
  assumes "verify mac key v = Inr ident"
  shows "v = sign mac key ident"
proof -
  have dot: "CHR ''.'' \<in> set v"
    using assms by (auto simp: verify_def split: if_splits)
  obtain p t where pt: "rsplit_sep v = (p, t)"
    by (cases "rsplit_sep v") auto
  have t: "t = urlsafe_encode (mac key p)" and d: "urlsafe_decode p = Some ident"
    using assms dot pt by (auto simp: verify_def split: if_splits option.splits)
  have p: "p = urlsafe_encode ident"
    using encode_decode [OF d] by simp
  have "v = p @ ''.'' @ t"
    using rsplit_join [OF dot] pt by simp
  then show ?thesis
    by (simp add: sign_def Let_def p t)
qed

lemma verify_Inl: "verify mac key v = Inl x \<Longrightarrow> x = BadSignature"
  by (auto simp: verify_def split: if_splits prod.splits option.splits)

text \<open>
  C6. Verifying the signed encoding of an identifier with the same secret (and the same
  tag function) gives the identifier back, for every identifier; so does the pair of
  signer methods of a middleware built from them.
\<close>

theorem verify_recovers_signed_identifier:
  "verify mac secret_key (sign mac secret_key ident) = Inr ident \<and>
   signer_loads (init (verify mac secret_key) (sign mac secret_key))
     (signer_dumps (init (verify mac secret_key) (sign mac secret_key)) ident) = Inr ident"
  by (simp add: verify_sign_roundtrip init_def)

subsection \<open>Reads of the stored record\<close>

lemma read_session_unreadable:
  assumes "cv \<noteq> []" and "signer_loads m cv = Inr sid" and "\<not> record_readable e w sid"
  shows "read_session m e (Some cv) w =
           (None, JObj [],
            w\<lparr>redis_client := True, commands := commands w @ [Get (''session:'' @ sid)]\<rparr>)"
  using assms
  by (auto simp: read_session_def read_try_def redis_get_def get_redis_def Let_def
        record_readable_def isl_def split: option.splits sum.splits)

lemma read_session_absent:
  assumes "cv \<noteq> []" and "signer_loads m cv = Inr sid" and "\<not> get_raises e"
    and "kv w (''session:'' @ sid) = None"
  shows "read_session m e (Some cv) w =
           (Some sid, JObj [],
            w\<lparr>redis_client := True, commands := commands w @ [Get (''session:'' @ sid)]\<rparr>)"
  using assms
  by (simp add: read_session_def read_try_def redis_get_def get_redis_def Let_def)

lemma demo_readable: "record_readable demo_env demo_world ''abc''"
  by (simp add: record_readable_def demo_env_def demo_world_def)

lemma demo_unreadable: "\<not> record_readable demo_read_fails demo_world ''abc''"
  by (simp add: record_readable_def demo_read_fails_def)

lemma demo_corrupt_unreadable: "\<not> record_readable demo_env demo_corrupt ''abc''"
  by (simp add: record_readable_def demo_env_def demo_corrupt_def)

lemma demo_read_fails_read:
  "read_session demo_mw demo_read_fails (Some demo_cookie) demo_world =
     (None, JObj [],
      demo_world\<lparr>redis_client := True, commands := [Get ''session:abc'']\<rparr>)"
  using read_session_unreadable [OF demo_cookie_nonempty demo_cookie_valid demo_unreadable]
  by (simp add: demo_world_def)

lemma demo_corrupt_read:
  "read_session demo_mw demo_env (Some demo_cookie) demo_corrupt =
     (None, JObj [],
      demo_corrupt\<lparr>redis_client := True, commands := [Get ''session:abc'']\<rparr>)"
  using read_session_unreadable [OF demo_cookie_nonempty demo_cookie_valid demo_corrupt_unreadable]
  by (simp add: demo_corrupt_def demo_world_def)

lemma demo_clear_cookie: "clear_cookie demo_mw = ''session=; Path=/; HttpOnly; Max-Age=0; SameSite=lax''"
  by (simp add: clear_cookie_def demo_mw_def init_def SESSION_COOKIE_def)

lemma demo_issue_abc:
  "issue_cookie demo_mw ''abc'' =
     ''session=616263.6b363136323633; Path=/; HttpOnly; Max-Age=1209600; SameSite=lax''"
  by (simp add: issue_cookie_def demo_mw_def init_def SESSION_COOKIE_def SESSION_TTL_def sign_abc str_ttl)

lemma demo_start_headers: "headers demo_start = [(''content-type'', ''text/html'')]"
  by (simp add: demo_start_def)

lemma alice_session: "scope_get_session (Some alice) = alice"
  by (simp add: scope_get_session_def)

lemma demo_read_fails_fields:
  "uuid4 demo_read_fails 0 = ''id0''" "json_dumps demo_read_fails alice = ''{user: alice}''"
  "\<not> setex_raises demo_read_fails" "get_raises demo_read_fails"
  using demo_uuid demo_dumps_alice by (simp_all add: demo_read_fails_def demo_env_def)

lemma demo_env_fields:
  "\<not> get_raises demo_env" "\<not> setex_raises demo_env" "\<not> delete_raises demo_env"
  by (simp_all add: demo_env_def)

lemma demo_world_fields:
  "commands demo_world = []" "kv demo_world = Map.empty" "uuid_calls demo_world = 0"
  by (simp_all add: demo_world_def)

subsection \<open>The whole call\<close>

text \<open>
  An application that changes the session any number of times, then sends one message,
  and after that sends only messages of other types, whether or not it raises in the end.
\<close>

lemma run_wrapped_sets:
  "run_wrapped m e sid s0 (map SetSession ss @ acts) w =
     run_wrapped m e sid (last (s0 # ss)) acts w"
  by (induction ss arbitrary: s0) simp_all

lemma run_plain_result: "run_plain acts w = (raised acts, sent acts, w)"
  by (induction acts w rule: run_plain.induct) simp_all

lemma call_response:
  assumes "read_session m e cookie w = (sid, d, w1)"
    and "app (Some d) = map SetSession ss @ Send msg # rest"
    and "no_response_start rest"
  shows "call m e ''http'' cookie app w =
           (raised rest,
            fst (send_wrapper m e sid (last (Some d # ss)) msg w1) # sent rest,
            snd (send_wrapper m e sid (last (Some d # ss)) msg w1))"
proof -
  obtain msg' w' where s: "send_wrapper m e sid (last (Some d # ss)) msg w1 = (msg', w')"
    by (cases "send_wrapper m e sid (last (Some d # ss)) msg w1") auto
  have r: "run_wrapped m e sid (last (Some d # ss)) rest w' = (raised rest, sent rest, w')"
    using run_wrapped_plain [OF assms(3), of m e sid "last (Some d # ss)" w']
    by (simp add: run_plain_result)
  have "run_wrapped m e sid (Some d) (map SetSession ss @ Send msg # rest) w1 =
          (raised rest, msg' # sent rest, w')"
    unfolding run_wrapped_sets using s r by (simp del: last.simps)
  then show ?thesis
    using assms(1,2) s by (simp add: call_def del: last.simps)
qed

lemma read_session_loaded:
  assumes "cv \<noteq> []" and "signer_loads m cv = Inr sid" and "record_readable e w sid"
  shows "read_session m e (Some cv) w =
           (Some sid, loaded_session e w sid,
            w\<lparr>redis_client := True, commands := commands w @ [Get (''session:'' @ sid)]\<rparr>)"
  using assms
  by (auto simp: read_session_def read_try_def redis_get_def get_redis_def Let_def
        record_readable_def loaded_session_def isl_def split: option.splits sum.splits)

lemma demo_write_fails_fields:
  "uuid4 demo_write_fails 0 = ''id0''" "json_dumps demo_write_fails alice = ''{user: alice}''"
  "setex_raises demo_write_fails" "\<not> get_raises demo_write_fails"
  "json_loads demo_write_fails ''{user: alice}'' = Inr alice"
  using demo_uuid demo_dumps_alice by (simp_all add: demo_write_fails_def demo_env_def)

lemma demo_login_shape:
  "demo_login s = map SetSession [Some alice] @ Send demo_start # []"
  by (simp add: demo_login_def)

lemma demo_logout_shape:
  "demo_logout s = map SetSession [Some (JObj [])] @ Send demo_start # []"
  by (simp add: demo_logout_def)

lemma demo_idle_shape:
  "demo_idle s = map SetSession [] @ Send demo_start # []"
  by (simp add: demo_idle_def)

lemma quiet_Nil: "no_response_start ([] :: unit action list)"
  by simp

lemma truthy_last_alice: "truthy (scope_get_session (last (Some (JObj []) # [Some alice])))"
  by (simp add: scope_get_session_def alice_def)

subsection \<open>Requests without a usable cookie\<close>

text \<open>
  C1, as stated, fails. The request has no cookie, the handler logs in, and the \<^verbatim>\<open>SETEX\<close>
  raises: the exception is swallowed, nothing is stored under the new identifier, and the
  cookie for it is sent all the same.
\<close>

theorem unstored_session_gets_cookie_counterexample:
  "truthy (scope_get_session (Some alice)) \<and> setex_raises demo_write_fails \<and>
   call demo_mw demo_write_fails ''http'' None demo_login demo_world =
     (None,
      [demo_start\<lparr>headers := [(''content-type'', ''text/html''),
         (''set-cookie'',
          ''session=696430.6b363936343330; Path=/; HttpOnly; Max-Age=1209600; SameSite=lax'')]\<rparr>],
      demo_world\<lparr>redis_client := True,
        commands := [SetEx ''session:id0'' 1209600 ''{user: alice}''],
        uuid_calls := 1\<rparr>) \<and>
   kv (snd (snd (call demo_mw demo_write_fails ''http'' None demo_login demo_world)))
     ''session:id0'' = None"
proof -
  have w: "send_wrapper demo_mw demo_write_fails None (Some alice) demo_start demo_world =
     (demo_start\<lparr>headers := [(''content-type'', ''text/html''),
         (''set-cookie'',
          ''session=696430.6b363936343330; Path=/; HttpOnly; Max-Age=1209600; SameSite=lax'')]\<rparr>,
      demo_world\<lparr>redis_client := True,
        commands := [SetEx ''session:id0'' 1209600 ''{user: alice}''],
        uuid_calls := 1\<rparr>)"
    using send_wrapper_issue [OF demo_start_type truthy_alice, of demo_mw demo_write_fails None
            demo_world]
    by (simp add: Let_def demo_write_fails_fields alice_session demo_max_age demo_issue_id0
          demo_world_fields demo_start_headers)
  have c: "call demo_mw demo_write_fails ''http'' None demo_login demo_world =
     (None,
      [demo_start\<lparr>headers := [(''content-type'', ''text/html''),
         (''set-cookie'',
          ''session=696430.6b363936343330; Path=/; HttpOnly; Max-Age=1209600; SameSite=lax'')]\<rparr>],
      demo_world\<lparr>redis_client := True,
        commands := [SetEx ''session:id0'' 1209600 ''{user: alice}''],
        uuid_calls := 1\<rparr>)"
    by (simp add: call_def read_session_def demo_login_def w)
  show ?thesis
    using truthy_alice demo_write_fails_fields(3)
    by (simp add: c demo_world_fields)
qed

text \<open>
  C1, amended. A request that starts with no session cookie, or with a cookie that the
  signer rejects, whose session is non-empty at \<^verbatim>\<open>http.response.start\<close>: the middleware
  takes a fresh identifier from \<^verbatim>\<open>uuid4\<close>, sends one \<^verbatim>\<open>SETEX\<close> for \<^verbatim>\<open>session:<id>\<close> with
  the configured TTL and the serialized session, which stores the record unless the
  command raises, and in either case appends a \<^verbatim>\<open>set-cookie\<close> header whose value starts
  with the cookie name and the signed new identifier. The call with the rejected cookie
  is the call without cookie.
\<close>

theorem new_session_for_anonymous_request:
  assumes "cookie = None \<or> (\<exists>cv x. cookie = Some cv \<and> signer_loads m cv = Inl x)"
    and "app (Some (JObj [])) = map SetSession ss @ Send msg # rest"
    and "no_response_start rest"
    and "truthy (scope_get_session (last (Some (JObj []) # ss)))"
    and "mtype msg = ''http.response.start''"
  shows "call m e ''http'' cookie app w =
           (raised rest,
            msg\<lparr>headers := headers msg @
                  [(''set-cookie'', issue_cookie m (uuid4 e (uuid_calls w)))]\<rparr> # sent rest,
            w\<lparr>redis_client := True,
              commands := commands w @
                 [SetEx (''session:'' @ uuid4 e (uuid_calls w)) (max_age m)
                    (json_dumps e (scope_get_session (last (Some (JObj []) # ss))))],
              kv := (if setex_raises e then kv w
                     else (kv w)(''session:'' @ uuid4 e (uuid_calls w) \<mapsto>
                            (json_dumps e (scope_get_session (last (Some (JObj []) # ss))),
                             max_age m))),
              uuid_calls := Suc (uuid_calls w)\<rparr>) \<and>
         call m e ''http'' cookie app w = call m e ''http'' None app w \<and>
         (\<exists>attrs. issue_cookie m (uuid4 e (uuid_calls w)) =
            session_cookie m @ ''='' @ signer_dumps m (uuid4 e (uuid_calls w)) @ attrs)"
proof -
  let ?s = "last (Some (JObj []) # ss)"
  have r: "read_session m e cookie w = (None, JObj [], w)"
    using assms(1) by (rule read_session_anonymous)
  have n: "read_session m e None w = (None, JObj [], w)"
    by (simp add: read_session_def)
  have s: "send_wrapper m e None ?s msg w =
           (msg\<lparr>headers := headers msg @
                  [(''set-cookie'', issue_cookie m (uuid4 e (uuid_calls w)))]\<rparr>,
            w\<lparr>redis_client := True,
              commands := commands w @
                 [SetEx (''session:'' @ uuid4 e (uuid_calls w)) (max_age m)
                    (json_dumps e (scope_get_session ?s))],
              kv := (if setex_raises e then kv w
                     else (kv w)(''session:'' @ uuid4 e (uuid_calls w) \<mapsto>
                            (json_dumps e (scope_get_session ?s), max_age m))),
              uuid_calls := Suc (uuid_calls w)\<rparr>)"
    using send_wrapper_issue [OF assms(5) assms(4), of m e None w]
    by (simp add: Let_def del: last.simps)
  have c1: "call m e ''http'' cookie app w =
              (raised rest, fst (send_wrapper m e None ?s msg w) # sent rest,
               snd (send_wrapper m e None ?s msg w))"
    using r assms(2,3) by (rule call_response)
  have c2: "call m e ''http'' None app w =
              (raised rest, fst (send_wrapper m e None ?s msg w) # sent rest,
               snd (send_wrapper m e None ?s msg w))"
    using n assms(2,3) by (rule call_response)
  show ?thesis
    using issue_cookie_prefix [of m "uuid4 e (uuid_calls w)"]
    by (simp add: c1 c2 s del: last.simps)
qed

theorem new_session_for_anonymous_request_witness:
  "signer_loads demo_mw ''garbage'' = Inl BadSignature \<and>
   demo_login (Some (JObj [])) = map SetSession [Some alice] @ Send demo_start # [] \<and>
   no_response_start ([] :: unit action list) \<and>
   truthy (scope_get_session (last (Some (JObj []) # [Some alice]))) \<and>
   mtype demo_start = ''http.response.start'' \<and>
   call demo_mw demo_env ''http'' (Some ''garbage'') demo_login demo_world =
     (None,
      [demo_start\<lparr>headers := [(''content-type'', ''text/html''),
         (''set-cookie'',
          ''session=696430.6b363936343330; Path=/; HttpOnly; Max-Age=1209600; SameSite=lax'')]\<rparr>],
      demo_world\<lparr>redis_client := True,
        commands := [SetEx ''session:id0'' 1209600 ''{user: alice}''],
        kv := [''session:id0'' \<mapsto> (''{user: alice}'', 1209600)],
        uuid_calls := 1\<rparr>) \<and>
   call demo_mw demo_env ''http'' (Some ''garbage'') demo_login demo_world =
     call demo_mw demo_env ''http'' None demo_login demo_world"
proof -
  have h1: "Some ''garbage'' = None \<or>
            (\<exists>cv x. Some ''garbage'' = Some cv \<and> signer_loads demo_mw cv = Inl x)"
    using demo_garbage_invalid by blast
  note t = new_session_for_anonymous_request [where app = demo_login and e = demo_env
             and w = demo_world, OF h1 demo_login_shape quiet_Nil
             truthy_last_alice demo_start_type]
  have l: "last (Some (JObj []) # [Some alice]) = Some alice"
    by simp
  have a: "call demo_mw demo_env ''http'' (Some ''garbage'') demo_login demo_world =
     (None,
      [demo_start\<lparr>headers := [(''content-type'', ''text/html''),
         (''set-cookie'',
          ''session=696430.6b363936343330; Path=/; HttpOnly; Max-Age=1209600; SameSite=lax'')]\<rparr>],
      demo_world\<lparr>redis_client := True,
        commands := [SetEx ''session:id0'' 1209600 ''{user: alice}''],
        kv := [''session:id0'' \<mapsto> (''{user: alice}'', 1209600)],
        uuid_calls := 1\<rparr>)"
    using t [THEN conjunct1]
    by (simp add: l demo_env_fields demo_world_fields alice_session demo_uuid demo_max_age
          demo_dumps_alice demo_issue_id0 demo_start_headers del: last.simps)
  have b: "call demo_mw demo_env ''http'' (Some ''garbage'') demo_login demo_world =
     call demo_mw demo_env ''http'' None demo_login demo_world"
    using t [THEN conjunct2, THEN conjunct1] .
  show ?thesis
    using demo_garbage_invalid demo_login_shape [of "Some (JObj [])"] quiet_Nil
          truthy_last_alice demo_start_type a b
    by blast
qed

subsection \<open>Requests with a cookie the signer accepts\<close>

text \<open>
  C2, as stated, fails. The cookie of this request verifies to \<open>abc\<close>, the read of the
  store raises, and the handler leaves the session empty: the exception handler of the
  read phase has reset the identifier, so no \<^verbatim>\<open>DELETE\<close> is sent and the response gets no
  header.
\<close>

theorem cleared_session_after_failed_read_counterexample:
  "demo_cookie \<noteq> [] \<and> signer_loads demo_mw demo_cookie = Inr ''abc'' \<and>
   get_raises demo_read_fails \<and>
   call demo_mw demo_read_fails ''http'' (Some demo_cookie) demo_logout demo_world =
     (None, [demo_start],
      demo_world\<lparr>redis_client := True, commands := [Get ''session:abc'']\<rparr>) \<and>
   Delete ''session:abc'' \<notin> set (commands (snd (snd
     (call demo_mw demo_read_fails ''http'' (Some demo_cookie) demo_logout demo_world)))) \<and>
   map headers (fst (snd
     (call demo_mw demo_read_fails ''http'' (Some demo_cookie) demo_logout demo_world))) =
     [[(''content-type'', ''text/html'')]]"
proof -
  have c: "call demo_mw demo_read_fails ''http'' (Some demo_cookie) demo_logout demo_world =
     (None, [demo_start],
      demo_world\<lparr>redis_client := True, commands := [Get ''session:abc'']\<rparr>)"
    using falsy_empty
    by (simp add: call_def demo_read_fails_read demo_logout_def send_wrapper_none)
  have g: "get_raises demo_read_fails"
    by (simp add: demo_read_fails_def)
  show ?thesis
    using demo_cookie_nonempty demo_cookie_valid g
    by (simp add: c demo_start_headers)
qed

text \<open>
  C2, amended. A request with a non-empty cookie that verifies to \<open>sid\<close>, whose read of
  the store goes through (the record is absent, empty or decodable), and whose session is
  empty at \<^verbatim>\<open>http.response.start\<close>: after the \<^verbatim>\<open>GET\<close> the middleware sends one \<^verbatim>\<open>DELETE\<close>
  for \<^verbatim>\<open>session:<sid>\<close>, which removes the record unless the command raises, and appends
  the cookie-clearing header with \<^verbatim>\<open>Max-Age=0\<close>.
\<close>

theorem cleared_session_deletes_record:
  assumes "cv \<noteq> []" and "signer_loads m cv = Inr sid" and "record_readable e w sid"
    and "app (Some (loaded_session e w sid)) = map SetSession ss @ Send msg # rest"
    and "no_response_start rest"
    and "\<not> truthy (scope_get_session (last (Some (loaded_session e w sid) # ss)))"
    and "mtype msg = ''http.response.start''"
  shows "call m e ''http'' (Some cv) app w =
           (raised rest,
            msg\<lparr>headers := headers msg @
               [(''set-cookie'',
                 session_cookie m @ ''=; Path=/; HttpOnly; Max-Age=0; SameSite=lax'')]\<rparr>
              # sent rest,
            w\<lparr>redis_client := True,
              commands := commands w @
                 [Get (''session:'' @ sid), Delete (''session:'' @ sid)],
              kv := (if delete_raises e then kv w
                     else (kv w)(''session:'' @ sid := None))\<rparr>)"
proof -
  let ?w1 = "w\<lparr>redis_client := True, commands := commands w @ [Get (''session:'' @ sid)]\<rparr>"
  let ?s = "last (Some (loaded_session e w sid) # ss)"
  have r: "read_session m e (Some cv) w = (Some sid, loaded_session e w sid, ?w1)"
    using assms(1,2,3) by (rule read_session_loaded)
  have c: "call m e ''http'' (Some cv) app w =
             (raised rest, fst (send_wrapper m e (Some sid) ?s msg ?w1) # sent rest,
              snd (send_wrapper m e (Some sid) ?s msg ?w1))"
    using r assms(4,5) by (rule call_response)
  show ?thesis
    using send_wrapper_clear [OF assms(7) assms(6), of m e sid ?w1]
    by (simp add: c clear_cookie_def del: last.simps)
qed

lemma demo_loaded_absent: "loaded_session demo_env demo_world ''abc'' = JObj []"
  by (simp add: loaded_session_def demo_world_def)

lemma demo_logout_loaded:
  "demo_logout (Some (loaded_session demo_env demo_world ''abc'')) =
     map SetSession [Some (JObj [])] @ Send demo_start # []"
  by (rule demo_logout_shape)

lemma falsy_last_empty:
  "\<not> truthy (scope_get_session
        (last (Some (loaded_session demo_env demo_world ''abc'') # [Some (JObj [])])))"
  by (simp add: scope_get_session_def)

theorem cleared_session_deletes_record_witness:
  "demo_cookie \<noteq> [] \<and> signer_loads demo_mw demo_cookie = Inr ''abc'' \<and>
   record_readable demo_env demo_world ''abc'' \<and>
   demo_logout (Some (loaded_session demo_env demo_world ''abc'')) =
     map SetSession [Some (JObj [])] @ Send demo_start # [] \<and>
   no_response_start ([] :: unit action list) \<and>
   \<not> truthy (scope_get_session
        (last (Some (loaded_session demo_env demo_world ''abc'') # [Some (JObj [])]))) \<and>
   mtype demo_start = ''http.response.start'' \<and>
   call demo_mw demo_env ''http'' (Some demo_cookie) demo_logout demo_world =
     (None,
      [demo_start\<lparr>headers := [(''content-type'', ''text/html''),
        (''set-cookie'', ''session=; Path=/; HttpOnly; Max-Age=0; SameSite=lax'')]\<rparr>],
      demo_world\<lparr>redis_client := True,
        commands := [Get ''session:abc'', Delete ''session:abc'']\<rparr>)"
proof -
  have u: "session_cookie demo_mw = ''session''"
    by (simp add: demo_mw_def init_def SESSION_COOKIE_def)
  have k: "demo_world\<lparr>redis_client := True,
             commands := [Get ''session:abc'', Delete ''session:abc''], kv := Map.empty\<rparr> =
           demo_world\<lparr>redis_client := True,
             commands := [Get ''session:abc'', Delete ''session:abc'']\<rparr>"
    by (simp add: demo_world_def)
  show ?thesis
    using cleared_session_deletes_record [where app = demo_logout,
            OF demo_cookie_nonempty demo_cookie_valid
            demo_readable demo_logout_loaded quiet_Nil falsy_last_empty demo_start_type]
          demo_cookie_nonempty demo_cookie_valid demo_readable demo_logout_loaded
          falsy_last_empty demo_start_type
    by (simp add: u k demo_env_fields demo_world_fields demo_start_headers del: last.simps)
qed

lemma demo_stored_readable: "record_readable demo_write_fails demo_stored ''abc''"
  by (simp add: record_readable_def demo_stored_def demo_write_fails_fields)

lemma demo_stored_loaded: "loaded_session demo_write_fails demo_stored ''abc'' = alice"
  by (simp add: loaded_session_def demo_stored_def demo_write_fails_fields)

lemma demo_stored_read:
  "read_session demo_mw demo_write_fails (Some demo_cookie) demo_stored =
     (Some ''abc'', alice,
      demo_stored\<lparr>redis_client := True, commands := [Get ''session:abc'']\<rparr>)"
proof -
  have c: "commands demo_stored = []"
    by (simp add: demo_stored_def demo_world_def)
  show ?thesis
    using read_session_loaded [OF demo_cookie_nonempty demo_cookie_valid demo_stored_readable]
    by (simp add: demo_stored_loaded c)
qed

text \<open>
  C3, as stated, fails, in two ways. In the first run the cookie verifies to \<open>abc\<close>, the
  read of the store raises, and the handler logs in: the record is written under a fresh
  identifier (\<^verbatim>\<open>session:id0\<close>), the cookie is issued for that identifier and not for
  \<open>abc\<close>, and nothing is stored under \<^verbatim>\<open>session:abc\<close>. In the second run the read goes
  through and the \<^verbatim>\<open>SETEX\<close> raises: the record of \<open>abc\<close> keeps its old TTL of 60 seconds,
  and the cookie for \<open>abc\<close> is issued all the same.
\<close>

theorem kept_session_not_overwritten_counterexample:
  "demo_cookie \<noteq> [] \<and> signer_loads demo_mw demo_cookie = Inr ''abc'' \<and>
   get_raises demo_read_fails \<and> \<not> setex_raises demo_read_fails \<and>
   call demo_mw demo_read_fails ''http'' (Some demo_cookie) demo_login demo_world =
     (None,
      [demo_start\<lparr>headers := [(''content-type'', ''text/html''),
         (''set-cookie'',
          ''session=696430.6b363936343330; Path=/; HttpOnly; Max-Age=1209600; SameSite=lax'')]\<rparr>],
      demo_world\<lparr>redis_client := True,
        commands := [Get ''session:abc'', SetEx ''session:id0'' 1209600 ''{user: alice}''],
        kv := [''session:id0'' \<mapsto> (''{user: alice}'', 1209600)],
        uuid_calls := 1\<rparr>) \<and>
   issue_cookie demo_mw ''abc'' =
     ''session=616263.6b363136323633; Path=/; HttpOnly; Max-Age=1209600; SameSite=lax'' \<and>
   kv (snd (snd (call demo_mw demo_read_fails ''http'' (Some demo_cookie) demo_login
     demo_world))) ''session:abc'' = None \<and>
   \<not> get_raises demo_write_fails \<and> setex_raises demo_write_fails \<and>
   kv demo_stored ''session:abc'' = Some (''{user: alice}'', 60) \<and>
   call demo_mw demo_write_fails ''http'' (Some demo_cookie) demo_idle demo_stored =
     (None,
      [demo_start\<lparr>headers := [(''content-type'', ''text/html''),
         (''set-cookie'',
          ''session=616263.6b363136323633; Path=/; HttpOnly; Max-Age=1209600; SameSite=lax'')]\<rparr>],
      demo_stored\<lparr>redis_client := True,
        commands := [Get ''session:abc'', SetEx ''session:abc'' 1209600 ''{user: alice}'']\<rparr>) \<and>
   kv (snd (snd (call demo_mw demo_write_fails ''http'' (Some demo_cookie) demo_idle
     demo_stored))) ''session:abc'' = Some (''{user: alice}'', 60)"
proof -
  have w: "send_wrapper demo_mw demo_read_fails None (Some alice) demo_start
             (demo_world\<lparr>redis_client := True, commands := [Get ''session:abc'']\<rparr>) =
     (demo_start\<lparr>headers := [(''content-type'', ''text/html''),
         (''set-cookie'',
          ''session=696430.6b363936343330; Path=/; HttpOnly; Max-Age=1209600; SameSite=lax'')]\<rparr>,
      demo_world\<lparr>redis_client := True,
        commands := [Get ''session:abc'', SetEx ''session:id0'' 1209600 ''{user: alice}''],
        kv := [''session:id0'' \<mapsto> (''{user: alice}'', 1209600)],
        uuid_calls := 1\<rparr>)"
    using send_wrapper_issue [OF demo_start_type truthy_alice, of demo_mw demo_read_fails None
            "demo_world\<lparr>redis_client := True, commands := [Get ''session:abc'']\<rparr>"]
    by (simp add: Let_def demo_read_fails_fields alice_session demo_max_age demo_issue_id0
          demo_world_fields demo_start_headers)
  have c: "call demo_mw demo_read_fails ''http'' (Some demo_cookie) demo_login demo_world =
     (None,
      [demo_start\<lparr>headers := [(''content-type'', ''text/html''),
         (''set-cookie'',
          ''session=696430.6b363936343330; Path=/; HttpOnly; Max-Age=1209600; SameSite=lax'')]\<rparr>],
      demo_world\<lparr>redis_client := True,
        commands := [Get ''session:abc'', SetEx ''session:id0'' 1209600 ''{user: alice}''],
        kv := [''session:id0'' \<mapsto> (''{user: alice}'', 1209600)],
        uuid_calls := 1\<rparr>)"
    by (simp add: call_def demo_read_fails_read demo_login_def w)
  have w2: "send_wrapper demo_mw demo_write_fails (Some ''abc'') (Some alice) demo_start
             (demo_stored\<lparr>redis_client := True, commands := [Get ''session:abc'']\<rparr>) =
     (demo_start\<lparr>headers := [(''content-type'', ''text/html''),
         (''set-cookie'',
          ''session=616263.6b363136323633; Path=/; HttpOnly; Max-Age=1209600; SameSite=lax'')]\<rparr>,
      demo_stored\<lparr>redis_client := True,
        commands := [Get ''session:abc'', SetEx ''session:abc'' 1209600 ''{user: alice}'']\<rparr>)"
    using send_wrapper_issue [OF demo_start_type truthy_alice, of demo_mw demo_write_fails
            "Some ''abc''"
            "demo_stored\<lparr>redis_client := True, commands := [Get ''session:abc'']\<rparr>"]
    by (simp add: Let_def demo_write_fails_fields alice_session demo_max_age demo_issue_abc
          demo_start_headers)
  have c2: "call demo_mw demo_write_fails ''http'' (Some demo_cookie) demo_idle demo_stored =
     (None,
      [demo_start\<lparr>headers := [(''content-type'', ''text/html''),
         (''set-cookie'',
          ''session=616263.6b363136323633; Path=/; HttpOnly; Max-Age=1209600; SameSite=lax'')]\<rparr>],
      demo_stored\<lparr>redis_client := True,
        commands := [Get ''session:abc'', SetEx ''session:abc'' 1209600 ''{user: alice}'']\<rparr>)"
    by (simp add: call_def demo_stored_read demo_idle_def w2)
  have k: "kv demo_stored ''session:abc'' = Some (''{user: alice}'', 60)"
    by (simp add: demo_stored_def)
  show ?thesis
    using demo_cookie_nonempty demo_cookie_valid demo_read_fails_fields(3,4)
          demo_write_fails_fields(3,4) k
    by (simp add: c c2 demo_issue_abc)
qed

text \<open>
  C3, amended. A request with a non-empty cookie that verifies to \<open>sid\<close>, whose read of
  the store goes through, and whose session is non-empty at \<^verbatim>\<open>http.response.start\<close>:
  after the \<^verbatim>\<open>GET\<close> the middleware sends one \<^verbatim>\<open>SETEX\<close> for \<^verbatim>\<open>session:<sid>\<close> with the
  serialized session and the TTL \<open>max_age\<close>, which replaces the record unless the command
  raises, takes no new identifier, and appends a cookie for the same identifier whatever
  the session holds and whether or not the command raised. The default \<open>max_age\<close> is
  1209600 seconds.
\<close>

theorem kept_session_overwrites_record:
  assumes "cv \<noteq> []" and "signer_loads m cv = Inr sid" and "record_readable e w sid"
    and "app (Some (loaded_session e w sid)) = map SetSession ss @ Send msg # rest"
    and "no_response_start rest"
    and "truthy (scope_get_session (last (Some (loaded_session e w sid) # ss)))"
    and "mtype msg = ''http.response.start''"
  shows "call m e ''http'' (Some cv) app w =
           (raised rest,
            msg\<lparr>headers := headers msg @ [(''set-cookie'', issue_cookie m sid)]\<rparr> # sent rest,
            w\<lparr>redis_client := True,
              commands := commands w @
                 [Get (''session:'' @ sid),
                  SetEx (''session:'' @ sid) (max_age m)
                    (json_dumps e
                       (scope_get_session (last (Some (loaded_session e w sid) # ss))))],
              kv := (if setex_raises e then kv w
                     else (kv w)(''session:'' @ sid \<mapsto>
                            (json_dumps e
                               (scope_get_session (last (Some (loaded_session e w sid) # ss))),
                             max_age m)))\<rparr>) \<and>
         (\<exists>attrs. issue_cookie m sid =
            session_cookie m @ ''='' @ signer_dumps m sid @ attrs) \<and>
         max_age (init loads dumps) = 1209600"
proof -
  let ?w1 = "w\<lparr>redis_client := True, commands := commands w @ [Get (''session:'' @ sid)]\<rparr>"
  let ?s = "last (Some (loaded_session e w sid) # ss)"
  have r: "read_session m e (Some cv) w = (Some sid, loaded_session e w sid, ?w1)"
    using assms(1,2,3) by (rule read_session_loaded)
  have c: "call m e ''http'' (Some cv) app w =
             (raised rest, fst (send_wrapper m e (Some sid) ?s msg ?w1) # sent rest,
              snd (send_wrapper m e (Some sid) ?s msg ?w1))"
    using r assms(4,5) by (rule call_response)
  show ?thesis
    using send_wrapper_issue [OF assms(7) assms(6), of m e "Some sid" ?w1]
          issue_cookie_prefix [of m sid]
    by (simp add: c Let_def init_def SESSION_TTL_def del: last.simps)
qed

lemma demo_login_loaded:
  "demo_login (Some (loaded_session demo_env demo_world ''abc'')) =
     map SetSession [Some alice] @ Send demo_start # []"
  by (rule demo_login_shape)

lemma truthy_last_loaded:
  "truthy (scope_get_session
     (last (Some (loaded_session demo_env demo_world ''abc'') # [Some alice])))"
  by (simp add: scope_get_session_def alice_def)

theorem kept_session_overwrites_record_witness:
  "demo_cookie \<noteq> [] \<and> signer_loads demo_mw demo_cookie = Inr ''abc'' \<and>
   record_readable demo_env demo_world ''abc'' \<and>
   demo_login (Some (loaded_session demo_env demo_world ''abc'')) =
     map SetSession [Some alice] @ Send demo_start # [] \<and>
   no_response_start ([] :: unit action list) \<and>
   truthy (scope_get_session
     (last (Some (loaded_session demo_env demo_world ''abc'') # [Some alice]))) \<and>
   mtype demo_start = ''http.response.start'' \<and>
   call demo_mw demo_env ''http'' (Some demo_cookie) demo_login demo_world =
     (None,
      [demo_start\<lparr>headers := [(''content-type'', ''text/html''),
        (''set-cookie'',
         ''session=616263.6b363136323633; Path=/; HttpOnly; Max-Age=1209600; SameSite=lax'')]\<rparr>],
      demo_world\<lparr>redis_client := True,
        commands := [Get ''session:abc'', SetEx ''session:abc'' 1209600 ''{user: alice}''],
        kv := [''session:abc'' \<mapsto> (''{user: alice}'', 1209600)]\<rparr>) \<and>
   max_age demo_mw = 1209600"
proof -
  note t = kept_session_overwrites_record [where app = demo_login,
             OF demo_cookie_nonempty demo_cookie_valid demo_readable demo_login_loaded
             quiet_Nil truthy_last_loaded demo_start_type]
  have l: "last (Some (loaded_session demo_env demo_world ''abc'') # [Some alice]) = Some alice"
    by simp
  have a: "call demo_mw demo_env ''http'' (Some demo_cookie) demo_login demo_world =
     (None,
      [demo_start\<lparr>headers := [(''content-type'', ''text/html''),
        (''set-cookie'',
         ''session=616263.6b363136323633; Path=/; HttpOnly; Max-Age=1209600; SameSite=lax'')]\<rparr>],
      demo_world\<lparr>redis_client := True,
        commands := [Get ''session:abc'', SetEx ''session:abc'' 1209600 ''{user: alice}''],
        kv := [''session:abc'' \<mapsto> (''{user: alice}'', 1209600)]\<rparr>)"
    using t [THEN conjunct1]
    by (simp add: l demo_env_fields demo_world_fields alice_session demo_max_age
          demo_dumps_alice demo_issue_abc demo_start_headers del: last.simps)
  show ?thesis
    using demo_cookie_nonempty demo_cookie_valid demo_readable demo_login_loaded quiet_Nil
          truthy_last_loaded demo_start_type a demo_max_age
    by blast
qed

subsection \<open>A failed read against an absent record\<close>

lemma demo_idle_absent:
  "call demo_mw demo_env ''http'' (Some demo_cookie) demo_idle demo_world =
     (None,
      [demo_start\<lparr>headers := [(''content-type'', ''text/html''),
         (''set-cookie'', ''session=; Path=/; HttpOnly; Max-Age=0; SameSite=lax'')]\<rparr>],
      demo_world\<lparr>redis_client := True,
        commands := [Get ''session:abc'', Delete ''session:abc'']\<rparr>)"
proof -
  have w: "send_wrapper demo_mw demo_env (Some ''abc'') (Some (JObj [])) demo_start
             (demo_world\<lparr>redis_client := True, commands := [Get ''session:abc'']\<rparr>) =
     (demo_start\<lparr>headers := [(''content-type'', ''text/html''),
         (''set-cookie'', ''session=; Path=/; HttpOnly; Max-Age=0; SameSite=lax'')]\<rparr>,
      demo_world\<lparr>redis_client := True,
        commands := [Get ''session:abc'', Delete ''session:abc'']\<rparr>)"
    using send_wrapper_clear [OF demo_start_type falsy_empty, of demo_mw demo_env "''abc''"
            "demo_world\<lparr>redis_client := True, commands := [Get ''session:abc'']\<rparr>"]
    by (simp add: demo_env_fields demo_clear_cookie demo_start_headers demo_world_def)
  show ?thesis
    by (simp add: call_def demo_read_ok demo_idle_def w)
qed

lemma demo_idle_read_fails:
  "call demo_mw demo_read_fails ''http'' (Some demo_cookie) demo_idle demo_world =
     (None, [demo_start],
      demo_world\<lparr>redis_client := True, commands := [Get ''session:abc'']\<rparr>)"
  using falsy_empty
  by (simp add: call_def demo_read_fails_read demo_idle_def send_wrapper_none)

lemma demo_idle_corrupt:
  "call demo_mw demo_env ''http'' (Some demo_cookie) demo_idle demo_corrupt =
     (None, [demo_start],
      demo_corrupt\<lparr>redis_client := True, commands := [Get ''session:abc'']\<rparr>)"
  using falsy_empty
  by (simp add: call_def demo_corrupt_read demo_idle_def send_wrapper_none)

text \<open>
  C4, as stated, fails. Three runs of the same request, with a cookie that verifies to
  \<open>abc\<close> and a handler that does not touch the session: the record is absent, the read
  raises, the stored document is truncated. The session is empty in all three. With the
  absent record the response deletes \<^verbatim>\<open>session:abc\<close> and clears the cookie; in the other
  two runs it sends no command and adds no header.
\<close>

theorem failed_read_differs_from_absent_record_counterexample:
  "demo_cookie \<noteq> [] \<and> signer_loads demo_mw demo_cookie = Inr ''abc'' \<and>
   kv demo_world ''session:abc'' = None \<and> get_raises demo_read_fails \<and>
   kv demo_corrupt ''session:abc'' = Some (''{user: al'', 1209600) \<and>
   json_loads demo_env ''{user: al'' = Inl JSONDecodeError \<and>
   fst (snd (read_session demo_mw demo_env (Some demo_cookie) demo_world)) = JObj [] \<and>
   fst (snd (read_session demo_mw demo_read_fails (Some demo_cookie) demo_world)) = JObj [] \<and>
   fst (snd (read_session demo_mw demo_env (Some demo_cookie) demo_corrupt)) = JObj [] \<and>
   call demo_mw demo_env ''http'' (Some demo_cookie) demo_idle demo_world =
     (None,
      [demo_start\<lparr>headers := [(''content-type'', ''text/html''),
         (''set-cookie'', ''session=; Path=/; HttpOnly; Max-Age=0; SameSite=lax'')]\<rparr>],
      demo_world\<lparr>redis_client := True,
        commands := [Get ''session:abc'', Delete ''session:abc'']\<rparr>) \<and>
   call demo_mw demo_read_fails ''http'' (Some demo_cookie) demo_idle demo_world =
     (None, [demo_start],
      demo_world\<lparr>redis_client := True, commands := [Get ''session:abc'']\<rparr>) \<and>
   call demo_mw demo_env ''http'' (Some demo_cookie) demo_idle demo_corrupt =
     (None, [demo_start],
      demo_corrupt\<lparr>redis_client := True, commands := [Get ''session:abc'']\<rparr>) \<and>
   fst (snd (call demo_mw demo_env ''http'' (Some demo_cookie) demo_idle demo_world)) \<noteq>
   fst (snd (call demo_mw demo_read_fails ''http'' (Some demo_cookie) demo_idle demo_world))"
proof -
  have k: "kv demo_world ''session:abc'' = None"
          "kv demo_corrupt ''session:abc'' = Some (''{user: al'', 1209600)"
          "json_loads demo_env ''{user: al'' = Inl JSONDecodeError"
    by (simp_all add: demo_world_def demo_corrupt_def demo_env_def)
  have h: "demo_start\<lparr>headers := [(''content-type'', ''text/html''),
         (''set-cookie'', ''session=; Path=/; HttpOnly; Max-Age=0; SameSite=lax'')]\<rparr> \<noteq> demo_start"
    by (simp add: demo_start_def)
  show ?thesis
    using demo_cookie_nonempty demo_cookie_valid demo_read_fails_fields(4) k h
    by (simp add: demo_idle_absent demo_idle_read_fails demo_idle_corrupt demo_read_ok
          demo_read_fails_read demo_corrupt_read)
qed

text \<open>
  C4, amended. For a non-empty cookie that verifies to \<open>sid\<close>, a read that raises or a
  stored document that does not decode gives the same empty session as an absent record,
  and no exception; but it discards the identifier, which an absent record keeps. The
  call after the failed read is therefore that of a request without cookie, the \<^verbatim>\<open>GET\<close>
  apart: nothing more for an empty session, one \<^verbatim>\<open>SETEX\<close> under a fresh identifier and a
  cookie for it for a non-empty one. The call with the absent record is that of a request
  with its identifier: one \<^verbatim>\<open>DELETE\<close> and the cookie-clearing header for an empty
  session, one \<^verbatim>\<open>SETEX\<close> under \<open>sid\<close> and a cookie for \<open>sid\<close> for a non-empty one. Each
  command takes effect unless it raises.
\<close>

theorem failed_read_drops_identifier:
  assumes "cv \<noteq> []" and "signer_loads m cv = Inr sid"
    and "\<not> record_readable e w sid"
    and "\<not> get_raises e'" and "kv w' (''session:'' @ sid) = None"
    and "app (Some (JObj [])) = map SetSession ss @ Send msg # rest"
    and "no_response_start rest"
    and "mtype msg = ''http.response.start''"
  shows "fst (snd (read_session m e (Some cv) w)) = JObj [] \<and>
         fst (snd (read_session m e' (Some cv) w')) = JObj [] \<and>
         call m e ''http'' (Some cv) app w =
           (if truthy (scope_get_session (last (Some (JObj []) # ss)))
            then (raised rest,
                  msg\<lparr>headers := headers msg @
                     [(''set-cookie'', issue_cookie m (uuid4 e (uuid_calls w)))]\<rparr> # sent rest,
                  w\<lparr>redis_client := True,
                    commands := commands w @
                      [Get (''session:'' @ sid),
                       SetEx (''session:'' @ uuid4 e (uuid_calls w)) (max_age m)
                         (json_dumps e (scope_get_session (last (Some (JObj []) # ss))))],
                    kv := (if setex_raises e then kv w
                           else (kv w)(''session:'' @ uuid4 e (uuid_calls w) \<mapsto>
                                  (json_dumps e
                                     (scope_get_session (last (Some (JObj []) # ss))),
                                   max_age m))),
                    uuid_calls := Suc (uuid_calls w)\<rparr>)
            else (raised rest, msg # sent rest,
                  w\<lparr>redis_client := True,
                    commands := commands w @ [Get (''session:'' @ sid)]\<rparr>)) \<and>
         call m e' ''http'' (Some cv) app w' =
           (if truthy (scope_get_session (last (Some (JObj []) # ss)))
            then (raised rest,
                  msg\<lparr>headers := headers msg @ [(''set-cookie'', issue_cookie m sid)]\<rparr>
                    # sent rest,
                  w'\<lparr>redis_client := True,
                     commands := commands w' @
                       [Get (''session:'' @ sid),
                        SetEx (''session:'' @ sid) (max_age m)
                          (json_dumps e' (scope_get_session (last (Some (JObj []) # ss))))],
                     kv := (if setex_raises e' then kv w'
                            else (kv w')(''session:'' @ sid \<mapsto>
                                   (json_dumps e'
                                      (scope_get_session (last (Some (JObj []) # ss))),
                                    max_age m)))\<rparr>)
            else (raised rest,
                  msg\<lparr>headers := headers msg @ [(''set-cookie'', clear_cookie m)]\<rparr>
                    # sent rest,
                  w'\<lparr>redis_client := True,
                     commands := commands w' @
                       [Get (''session:'' @ sid), Delete (''session:'' @ sid)],
                     kv := (if delete_raises e' then kv w'
                            else (kv w')(''session:'' @ sid := None))\<rparr>))"
proof -
  let ?s = "last (Some (JObj []) # ss)"
  let ?w1 = "w\<lparr>redis_client := True, commands := commands w @ [Get (''session:'' @ sid)]\<rparr>"
  let ?w1' = "w'\<lparr>redis_client := True, commands := commands w' @ [Get (''session:'' @ sid)]\<rparr>"
  have a: "read_session m e (Some cv) w = (None, JObj [], ?w1)"
    using assms(1,2,3) by (rule read_session_unreadable)
  have b: "read_session m e' (Some cv) w' = (Some sid, JObj [], ?w1')"
    using assms(1,2,4,5) by (rule read_session_absent)
  have ca: "call m e ''http'' (Some cv) app w =
              (raised rest, fst (send_wrapper m e None ?s msg ?w1) # sent rest,
               snd (send_wrapper m e None ?s msg ?w1))"
    using a assms(6,7) by (rule call_response)
  have cb: "call m e' ''http'' (Some cv) app w' =
              (raised rest, fst (send_wrapper m e' (Some sid) ?s msg ?w1') # sent rest,
               snd (send_wrapper m e' (Some sid) ?s msg ?w1'))"
    using b assms(6,7) by (rule call_response)
  show ?thesis
  proof (cases "truthy (scope_get_session ?s)")
    case True
    show ?thesis
      using True send_wrapper_issue [OF assms(8) True, of m e None ?w1]
            send_wrapper_issue [OF assms(8) True, of m e' "Some sid" ?w1']
      by (simp add: a b ca cb Let_def del: last.simps)
  next
    case False
    show ?thesis
      using False send_wrapper_none [OF False, of m e msg ?w1]
            send_wrapper_clear [OF assms(8) False, of m e' sid ?w1']
      by (simp add: a b ca cb del: last.simps)
  qed
qed

lemma demo_idle_empty:
  "demo_idle (Some (JObj [])) = map SetSession [] @ Send demo_start # []"
  by (rule demo_idle_shape)

theorem failed_read_drops_identifier_witness:
  "demo_cookie \<noteq> [] \<and> signer_loads demo_mw demo_cookie = Inr ''abc'' \<and>
   \<not> record_readable demo_read_fails demo_world ''abc'' \<and>
   \<not> get_raises demo_env \<and> kv demo_world ''session:abc'' = None \<and>
   demo_idle (Some (JObj [])) = map SetSession [] @ Send demo_start # [] \<and>
   no_response_start ([] :: unit action list) \<and>
   mtype demo_start = ''http.response.start'' \<and>
   fst (snd (read_session demo_mw demo_read_fails (Some demo_cookie) demo_world)) = JObj [] \<and>
   fst (snd (read_session demo_mw demo_env (Some demo_cookie) demo_world)) = JObj [] \<and>
   call demo_mw demo_read_fails ''http'' (Some demo_cookie) demo_idle demo_world =
     (None, [demo_start],
      demo_world\<lparr>redis_client := True, commands := [Get ''session:abc'']\<rparr>) \<and>
   call demo_mw demo_env ''http'' (Some demo_cookie) demo_idle demo_world =
     (None,
      [demo_start\<lparr>headers := [(''content-type'', ''text/html''),
         (''set-cookie'', ''session=; Path=/; HttpOnly; Max-Age=0; SameSite=lax'')]\<rparr>],
      demo_world\<lparr>redis_client := True,
        commands := [Get ''session:abc'', Delete ''session:abc'']\<rparr>)"
proof -
  have k: "kv demo_world (''session:'' @ ''abc'') = None"
    by (simp add: demo_world_def)
  note t = failed_read_drops_identifier [where app = demo_idle,
             OF demo_cookie_nonempty demo_cookie_valid demo_unreadable demo_env_fields(1) k
             demo_idle_empty quiet_Nil demo_start_type]
  have f: "\<not> truthy (scope_get_session (last (Some (JObj []) # [])))"
    by (simp add: scope_get_session_def)
  have w: "demo_world\<lparr>redis_client := True,
             commands := [Get ''session:abc'', Delete ''session:abc''], kv := Map.empty\<rparr> =
           demo_world\<lparr>redis_client := True,
             commands := [Get ''session:abc'', Delete ''session:abc'']\<rparr>"
    by (simp add: demo_world_def)
  have r1: "fst (snd (read_session demo_mw demo_read_fails (Some demo_cookie) demo_world)) = JObj []"
    using t [THEN conjunct1] .
  have r2: "fst (snd (read_session demo_mw demo_env (Some demo_cookie) demo_world)) = JObj []"
    using t [THEN conjunct2, THEN conjunct1] .
  have a: "call demo_mw demo_read_fails ''http'' (Some demo_cookie) demo_idle demo_world =
     (None, [demo_start],
      demo_world\<lparr>redis_client := True, commands := [Get ''session:abc'']\<rparr>)"
    using t [THEN conjunct2, THEN conjunct2, THEN conjunct1] f
    by (simp add: demo_world_fields del: last.simps)
  have b: "call demo_mw demo_env ''http'' (Some demo_cookie) demo_idle demo_world =
     (None,
      [demo_start\<lparr>headers := [(''content-type'', ''text/html''),
         (''set-cookie'', ''session=; Path=/; HttpOnly; Max-Age=0; SameSite=lax'')]\<rparr>],
      demo_world\<lparr>redis_client := True,
        commands := [Get ''session:abc'', Delete ''session:abc'']\<rparr>)"
    using t [THEN conjunct2, THEN conjunct2, THEN conjunct2] f
    by (simp add: w demo_env_fields demo_world_fields demo_clear_cookie demo_start_headers
          del: last.simps)
  have k': "kv demo_world ''session:abc'' = None"
    by (simp add: demo_world_def)
  show ?thesis
    using demo_cookie_nonempty demo_cookie_valid demo_unreadable demo_env_fields(1) k'
          demo_idle_empty quiet_Nil demo_start_type r1 r2 a b
    by blast
qed

subsection \<open>The signature check of the library\<close>

lemma dump_abc: "demo_dump_payload ''abc'' = ''ImFiYyI''"
  by code_simp

lemma tag_canonical:
  "b64_encode [137, 200, 17, 96, 60, 65, 85, 199, 145, 219, 149, 212, 66, 25, 136, 0, 95, 235,
      230, 38] = ''icgRYDxBVceR25XUQhmIAF_r5iY''"
  by code_simp

lemma tag_altered:
  "base64_decode ''icgRYDxBVceR25XUQhmIAF_r5iZ'' =
     Some [137, 200, 17, 96, 60, 65, 85, 199, 145, 219, 149, 212, 66, 25, 136, 0, 95, 235,
       230, 38]"
  by code_simp

lemma tag_truncated:
  "base64_decode ''icgRYDxBVceR25XUQhmIAF_r5i'' =
     Some [137, 200, 17, 96, 60, 65, 85, 199, 145, 219, 149, 212, 66, 25, 136, 0, 95, 235,
       230]"
  by code_simp

lemma payload_abc: "demo_load_payload ''ImFiYyI'' = Inr ''abc''"
  by code_simp

lemma b64_char_no_dot: "CHR ''.'' \<noteq> b64_char n"
proof -
  have "length b64_alphabet = 64"
    by (simp add: b64_alphabet_def)
  then have "n mod 64 < length b64_alphabet"
    by simp
  then have "b64_alphabet ! (n mod 64) \<in> set b64_alphabet"
    by (rule nth_mem)
  then have "b64_char n \<in> set b64_alphabet"
    by (simp only: b64_char_def)
  moreover have "CHR ''.'' \<notin> set b64_alphabet"
    by (simp add: b64_alphabet_def)
  ultimately show ?thesis by metis
qed

lemma b64_encode_no_dot: "CHR ''.'' \<notin> set (b64_encode bs)"
  by (induction bs rule: b64_encode.induct) (simp_all add: b64_char_no_dot)

lemma rsplit_dumps:
  "rsplit_sep (serializer_dumps mac key dp ident) =
     (dp ident, b64_encode (mac key (dp ident)))"
  unfolding serializer_dumps_def Let_def
  by (rule rsplit_append) (rule b64_encode_no_dot)

lemma rsplit_altered:
  "rsplit_sep altered_cookie = (''ImFiYyI'', ''icgRYDxBVceR25XUQhmIAF_r5iZ'')"
  by (simp add: rsplit_sep_def altered_cookie_def)

lemma rsplit_truncated:
  "rsplit_sep truncated_cookie = (''ImFiYyI'', ''icgRYDxBVceR25XUQhmIAF_r5i'')"
  by (simp add: rsplit_sep_def truncated_cookie_def)

lemma demo_hmac_abc:
  "demo_hmac ''k'' ''ImFiYyI'' =
     [137, 200, 17, 96, 60, 65, 85, 199, 145, 219, 149, 212, 66, 25, 136, 0, 95, 235, 230, 38]"
  by (simp add: demo_hmac_def)

lemma dumps_abc: "serializer_dumps demo_hmac ''k'' demo_dump_payload ''abc'' = real_cookie"
  by (simp add: serializer_dumps_def dump_abc demo_hmac_abc tag_canonical real_cookie_def
        del: b64_encode.simps)

lemma altered_is_no_signed_value:
  "altered_cookie \<noteq> serializer_dumps demo_hmac ''k'' demo_dump_payload ident"
proof
  assume a: "altered_cookie = serializer_dumps demo_hmac ''k'' demo_dump_payload ident"
  have "rsplit_sep altered_cookie =
          (demo_dump_payload ident, b64_encode (demo_hmac ''k'' (demo_dump_payload ident)))"
    unfolding a by (rule rsplit_dumps)
  then have p: "demo_dump_payload ident = ''ImFiYyI''"
    and t: "b64_encode (demo_hmac ''k'' (demo_dump_payload ident)) =
              ''icgRYDxBVceR25XUQhmIAF_r5iZ''"
    by (simp_all add: rsplit_altered)
  have "b64_encode (demo_hmac ''k'' ''ImFiYyI'') = ''icgRYDxBVceR25XUQhmIAF_r5iY''"
    by (simp only: demo_hmac_abc tag_canonical)
  then show False
    using t by (simp add: p del: b64_encode.simps)
qed

lemma loads_altered:
  "serializer_loads demo_hmac ''k'' demo_load_payload altered_cookie = Inr ''abc''"
proof -
  have "CHR ''.'' \<in> set altered_cookie"
    by (simp add: altered_cookie_def)
  then show ?thesis
    by (simp add: serializer_loads_def signer_unsign_def rsplit_altered tag_altered
          demo_hmac_abc payload_abc)
qed

lemma loads_truncated:
  "serializer_loads demo_hmac ''k'' demo_load_payload truncated_cookie = Inl BadSignature"
proof -
  have "CHR ''.'' \<in> set truncated_cookie"
    by (simp add: truncated_cookie_def)
  then show ?thesis
    by (simp add: serializer_loads_def signer_unsign_def rsplit_truncated tag_truncated
          demo_hmac_abc)
qed

lemma mismatch_rejected:
  assumes "CHR ''.'' \<notin> set v \<or>
           base64_decode (snd (rsplit_sep v)) \<noteq> Some (mac key (fst (rsplit_sep v)))"
  shows "serializer_loads mac key lp v = Inl BadSignature"
  using assms
  by (auto simp: serializer_loads_def signer_unsign_def split: prod.splits)

lemma call_anonymous:
  assumes "signer_loads m v = Inl x"
  shows "call m e scope_type (Some v) app w = call m e scope_type None app w"
proof -
  have "read_session m e (Some v) w = (None, JObj [], w)"
    by (rule read_session_anonymous) (use assms in blast)
  moreover have "read_session m e None w = (None, JObj [], w)"
    by (simp add: read_session_def)
  ultimately show ?thesis
    by (simp add: call_def)
qed

lemma demo_library_loads:
  "signer_loads demo_library = serializer_loads demo_hmac ''k'' demo_load_payload"
  by (simp add: demo_library_def init_def)

lemma demo_library_clear:
  "clear_cookie demo_library = ''session=; Path=/; HttpOnly; Max-Age=0; SameSite=lax''"
  by (simp add: clear_cookie_def demo_library_def init_def SESSION_COOKIE_def)

lemma altered_nonempty: "altered_cookie \<noteq> []"
  by (simp add: altered_cookie_def)

lemma altered_accepted: "signer_loads demo_library altered_cookie = Inr ''abc''"
  by (simp add: demo_library_loads loads_altered)

lemma altered_differs: "altered_cookie \<noteq> real_cookie"
  by (simp add: altered_cookie_def real_cookie_def)

text \<open>
  C7, as stated, fails. The cookie whose tag ends in \<^verbatim>\<open>Z\<close> is not the signed encoding
  of \<open>abc\<close>, nor of any other identifier (\<open>altered_is_no_signed_value\<close>), but its tag
  decodes to the same bytes as the tag ending in \<^verbatim>\<open>Y\<close>: the signer returns \<open>abc\<close>, and
  the middleware reads the record of \<open>abc\<close> and, the session being empty, deletes it and
  clears the cookie, where a request without cookie gets nothing.
\<close>

theorem altered_tag_is_accepted_counterexample:
  "real_cookie = ''ImFiYyI.icgRYDxBVceR25XUQhmIAF_r5iY'' \<and>
   altered_cookie = ''ImFiYyI.icgRYDxBVceR25XUQhmIAF_r5iZ'' \<and>
   signer_dumps demo_library ''abc'' = real_cookie \<and>
   altered_cookie \<noteq> signer_dumps demo_library ''abc'' \<and>
   signer_loads demo_library altered_cookie = Inr ''abc'' \<and>
   call demo_library demo_env ''http'' (Some altered_cookie) demo_idle demo_world =
     (None,
      [demo_start\<lparr>headers := [(''content-type'', ''text/html''),
         (''set-cookie'', ''session=; Path=/; HttpOnly; Max-Age=0; SameSite=lax'')]\<rparr>],
      demo_world\<lparr>redis_client := True,
        commands := [Get ''session:abc'', Delete ''session:abc'']\<rparr>) \<and>
   call demo_library demo_env ''http'' None demo_idle demo_world =
     (None, [demo_start], demo_world)"
proof -
  have d: "signer_dumps demo_library ''abc'' = real_cookie"
    by (simp add: demo_library_def init_def dumps_abc)
  have k: "kv demo_world (''session:'' @ ''abc'') = None"
    by (simp add: demo_world_def)
  have r: "read_session demo_library demo_env (Some altered_cookie) demo_world =
     (Some ''abc'', JObj [],
      demo_world\<lparr>redis_client := True, commands := [Get ''session:abc'']\<rparr>)"
    using read_session_absent [OF altered_nonempty altered_accepted demo_env_fields(1) k]
    by (simp add: demo_world_fields)
  have w: "send_wrapper demo_library demo_env (Some ''abc'') (Some (JObj [])) demo_start
             (demo_world\<lparr>redis_client := True, commands := [Get ''session:abc'']\<rparr>) =
     (demo_start\<lparr>headers := [(''content-type'', ''text/html''),
         (''set-cookie'', ''session=; Path=/; HttpOnly; Max-Age=0; SameSite=lax'')]\<rparr>,
      demo_world\<lparr>redis_client := True,
        commands := [Get ''session:abc'', Delete ''session:abc'']\<rparr>)"
    using send_wrapper_clear [OF demo_start_type falsy_empty, of demo_library demo_env "''abc''"
            "demo_world\<lparr>redis_client := True, commands := [Get ''session:abc'']\<rparr>"]
    by (simp add: demo_env_fields demo_library_clear demo_start_headers demo_world_def)
  have c: "call demo_library demo_env ''http'' (Some altered_cookie) demo_idle demo_world =
     (None,
      [demo_start\<lparr>headers := [(''content-type'', ''text/html''),
         (''set-cookie'', ''session=; Path=/; HttpOnly; Max-Age=0; SameSite=lax'')]\<rparr>],
      demo_world\<lparr>redis_client := True,
        commands := [Get ''session:abc'', Delete ''session:abc'']\<rparr>)"
    by (simp add: call_def r demo_idle_def w)
  have n: "call demo_library demo_env ''http'' None demo_idle demo_world =
     (None, [demo_start], demo_world)"
    using falsy_empty
    by (simp add: call_def read_session_def demo_idle_def send_wrapper_none)
  have a: "altered_cookie \<noteq> signer_dumps demo_library ''abc''"
    using altered_differs by (simp add: d)
  show ?thesis
    using d a altered_accepted c n altered_cookie_def real_cookie_def
    by blast
qed

text \<open>
  C7, amended. A cookie value without separator, or whose tag does not decode to the tag
  bytes of its payload, is rejected with the explicit outcome \<^verbatim>\<open>BadSignature\<close>: no
  identifier comes out of it. The middleware then has no identifier and the empty
  session, has sent nothing to the store, and the call is the call of a request without
  cookie. The same holds for every signer and every exception it raises on a cookie.
\<close>

theorem rejected_cookie_is_anonymous:
  assumes "CHR ''.'' \<notin> set v \<or>
           base64_decode (snd (rsplit_sep v)) \<noteq> Some (mac secret_key (fst (rsplit_sep v)))"
    and "signer_loads m = serializer_loads mac secret_key load_payload"
  shows "serializer_loads mac secret_key load_payload v = Inl BadSignature \<and>
         read_session m e (Some v) w = (None, JObj [], w) \<and>
         call m e scope_type (Some v) app w = call m e scope_type None app w \<and>
         (\<forall>(m' :: middleware) x. signer_loads m' v = Inl x \<longrightarrow>
            read_session m' e (Some v) w = (None, JObj [], w) \<and>
            call m' e scope_type (Some v) app w = call m' e scope_type None app w)"
proof -
  have v: "serializer_loads mac secret_key load_payload v = Inl BadSignature"
    using assms(1) by (rule mismatch_rejected)
  have g: "\<And>(m' :: middleware) x. signer_loads m' v = Inl x \<Longrightarrow>
             read_session m' e (Some v) w = (None, JObj [], w) \<and>
             call m' e scope_type (Some v) app w = call m' e scope_type None app w"
  proof -
    fix m' :: middleware and x
    assume l: "signer_loads m' v = Inl x"
    have "read_session m' e (Some v) w = (None, JObj [], w)"
      by (rule read_session_anonymous) (use l in blast)
    then show "read_session m' e (Some v) w = (None, JObj [], w) \<and>
               call m' e scope_type (Some v) app w = call m' e scope_type None app w"
      using call_anonymous [OF l] by simp
  qed
  have "signer_loads m v = Inl BadSignature"
    using v assms(2) by simp
  then show ?thesis
    using v g by blast
qed

lemma truncated_mismatch:
  "base64_decode (snd (rsplit_sep truncated_cookie)) \<noteq>
     Some (demo_hmac ''k'' (fst (rsplit_sep truncated_cookie)))"
  by (simp add: rsplit_truncated tag_truncated demo_hmac_abc)

theorem rejected_cookie_is_anonymous_witness:
  "truncated_cookie = ''ImFiYyI.icgRYDxBVceR25XUQhmIAF_r5i'' \<and>
   base64_decode (snd (rsplit_sep truncated_cookie)) \<noteq>
     Some (demo_hmac ''k'' (fst (rsplit_sep truncated_cookie))) \<and>
   signer_loads demo_library = serializer_loads demo_hmac ''k'' demo_load_payload \<and>
   serializer_loads demo_hmac ''k'' demo_load_payload truncated_cookie = Inl BadSignature \<and>
   read_session demo_library demo_env (Some truncated_cookie) demo_world =
     (None, JObj [], demo_world) \<and>
   call demo_library demo_env ''http'' (Some truncated_cookie) demo_idle demo_world =
     call demo_library demo_env ''http'' None demo_idle demo_world"
proof -
  have h: "CHR ''.'' \<notin> set truncated_cookie \<or>
           base64_decode (snd (rsplit_sep truncated_cookie)) \<noteq>
             Some (demo_hmac ''k'' (fst (rsplit_sep truncated_cookie)))"
    using truncated_mismatch by blast
  note t = rejected_cookie_is_anonymous [where e = demo_env and w = demo_world
             and scope_type = "''http''" and app = demo_idle, OF h demo_library_loads]
  show ?thesis
    using t truncated_mismatch demo_library_loads truncated_cookie_def
    by blast
qed

subsection \<open>Cookie attributes\<close>

text \<open>
  C8. With \<open>https_only\<close> set, the header that clears the cookie carries \<^verbatim>\<open>HttpOnly\<close>,
  \<^verbatim>\<open>SameSite=lax\<close>, \<^verbatim>\<open>Path=/\<close> and \<^verbatim>\<open>Max-Age=0\<close> but no \<^verbatim>\<open>Secure\<close>, while the header
  that issues the cookie, under the same configuration, ends with \<^verbatim>\<open>Secure\<close>.
\<close>

theorem clearing_header_never_secure:
  "https_only demo_https \<and>
   fst (send_wrapper demo_https demo_env (Some ''abc'') (Some (JObj [])) demo_start demo_world) =
     demo_start\<lparr>headers := [(''content-type'', ''text/html''),
       (''set-cookie'', ''session=; Path=/; HttpOnly; Max-Age=0; SameSite=lax'')]\<rparr> \<and>
   cookie_attributes ''session=; Path=/; HttpOnly; Max-Age=0; SameSite=lax'' =
     [''session='', ''Path=/'', ''HttpOnly'', ''Max-Age=0'', ''SameSite=lax''] \<and>
   ''Secure'' \<notin> set (cookie_attributes (clear_cookie demo_https)) \<and>
   fst (send_wrapper demo_https demo_env (Some ''abc'') (Some alice) demo_start demo_world) =
     demo_start\<lparr>headers := [(''content-type'', ''text/html''),
       (''set-cookie'',
        ''session=616263.6b363136323633; Path=/; HttpOnly; Max-Age=1209600; SameSite=lax; Secure'')]\<rparr> \<and>
   cookie_attributes (issue_cookie demo_https ''abc'') =
     [''session=616263.6b363136323633'', ''Path=/'', ''HttpOnly'', ''Max-Age=1209600'',
      ''SameSite=lax'', ''Secure'']"
proof -
  have c: "clear_cookie demo_https = ''session=; Path=/; HttpOnly; Max-Age=0; SameSite=lax''"
    by (simp add: clear_cookie_def demo_https_def demo_mw_def init_def SESSION_COOKIE_def)
  have i: "issue_cookie demo_https ''abc'' =
     ''session=616263.6b363136323633; Path=/; HttpOnly; Max-Age=1209600; SameSite=lax; Secure''"
    by (simp add: issue_cookie_def demo_https_def demo_mw_def init_def SESSION_COOKIE_def
          SESSION_TTL_def sign_abc str_ttl)
  have a: "cookie_attributes ''session=; Path=/; HttpOnly; Max-Age=0; SameSite=lax'' =
     [''session='', ''Path=/'', ''HttpOnly'', ''Max-Age=0'', ''SameSite=lax'']"
    by simp
  have b: "cookie_attributes
     ''session=616263.6b363136323633; Path=/; HttpOnly; Max-Age=1209600; SameSite=lax; Secure'' =
     [''session=616263.6b363136323633'', ''Path=/'', ''HttpOnly'', ''Max-Age=1209600'',
      ''SameSite=lax'', ''Secure'']"
    by simp
  have h: "https_only demo_https"
    by (simp add: demo_https_def)
  have s1: "fst (send_wrapper demo_https demo_env (Some ''abc'') (Some (JObj [])) demo_start
              demo_world) =
     demo_start\<lparr>headers := headers demo_start @ [(''set-cookie'', clear_cookie demo_https)]\<rparr>"
    using send_wrapper_clear [OF demo_start_type falsy_empty, of demo_https demo_env "''abc''"
            demo_world]
    by simp
  have s2: "fst (send_wrapper demo_https demo_env (Some ''abc'') (Some alice) demo_start
              demo_world) =
     demo_start\<lparr>headers := headers demo_start @
        [(''set-cookie'', issue_cookie demo_https ''abc'')]\<rparr>"
    using send_wrapper_issue [OF demo_start_type truthy_alice, of demo_https demo_env
            "Some ''abc''" demo_world]
    by (simp add: Let_def)
  show ?thesis
    using h by (simp add: s1 s2 c i a b demo_start_headers)
qed

end
